theory Spec2Isabelle
  imports Complex_Main
begin

section \<open>Numbers and text of the Python program\<close>

text \<open>
  The services compute with Python and pandas floating-point values. Three things of IEEE
  arithmetic decide how the program behaves and are modelled: the two infinities, the
  not-a-number value that pandas also uses for a missing entry, and the rule that every ordered
  comparison with not-a-number is false. In the indicators and the strategies the finite
  values are modelled as exact reals, so rounding error is outside the model there, and the
  sign of a zero is not tracked: a zero divisor counts as positive zero.
\<close>

datatype fl = Fin real | PInf | NInf | NaN

fun fl_neg :: "fl \<Rightarrow> fl" where
  "fl_neg (Fin a) = Fin (- a)"
| "fl_neg PInf = NInf"
| "fl_neg NInf = PInf"
| "fl_neg NaN = NaN"

fun fl_add :: "fl \<Rightarrow> fl \<Rightarrow> fl" where
  "fl_add (Fin a) (Fin b) = Fin (a + b)"
| "fl_add NaN _ = NaN"
| "fl_add _ NaN = NaN"
| "fl_add PInf NInf = NaN"
| "fl_add NInf PInf = NaN"
| "fl_add PInf _ = PInf"
| "fl_add _ PInf = PInf"
| "fl_add NInf _ = NInf"
| "fl_add _ NInf = NInf"

definition fl_sub :: "fl \<Rightarrow> fl \<Rightarrow> fl" where
  "fl_sub a b = fl_add a (fl_neg b)"

fun fl_mul :: "fl \<Rightarrow> fl \<Rightarrow> fl" where
  "fl_mul (Fin a) (Fin b) = Fin (a * b)"
| "fl_mul NaN _ = NaN"
| "fl_mul _ NaN = NaN"
| "fl_mul PInf (Fin b) = (if b = 0 then NaN else if 0 < b then PInf else NInf)"
| "fl_mul NInf (Fin b) = (if b = 0 then NaN else if 0 < b then NInf else PInf)"
| "fl_mul (Fin a) PInf = (if a = 0 then NaN else if 0 < a then PInf else NInf)"
| "fl_mul (Fin a) NInf = (if a = 0 then NaN else if 0 < a then NInf else PInf)"
| "fl_mul PInf PInf = PInf"
| "fl_mul NInf NInf = PInf"
| "fl_mul PInf NInf = NInf"
| "fl_mul NInf PInf = NInf"

fun fl_div :: "fl \<Rightarrow> fl \<Rightarrow> fl" where
  "fl_div (Fin a) (Fin b) =
     (if b = 0 then (if a = 0 then NaN else if 0 < a then PInf else NInf) else Fin (a / b))"
| "fl_div NaN _ = NaN"
| "fl_div _ NaN = NaN"
| "fl_div (Fin a) _ = Fin 0"
| "fl_div PInf (Fin b) = (if 0 \<le> b then PInf else NInf)"
| "fl_div NInf (Fin b) = (if 0 \<le> b then NInf else PInf)"
| "fl_div _ _ = NaN"

fun fl_lt :: "fl \<Rightarrow> fl \<Rightarrow> bool" where
  "fl_lt (Fin a) (Fin b) = (a < b)"
| "fl_lt NaN _ = False"
| "fl_lt _ NaN = False"
| "fl_lt _ NInf = False"
| "fl_lt PInf _ = False"
| "fl_lt _ _ = True"

fun fl_eq :: "fl \<Rightarrow> fl \<Rightarrow> bool" where
  "fl_eq NaN _ = False"
| "fl_eq _ NaN = False"
| "fl_eq a b = (a = b)"

definition fl_le :: "fl \<Rightarrow> fl \<Rightarrow> bool" where
  "fl_le a b = (fl_lt a b \<or> fl_eq a b)"

definition fl_gt :: "fl \<Rightarrow> fl \<Rightarrow> bool" where
  "fl_gt a b = fl_lt b a"

definition fl_ge :: "fl \<Rightarrow> fl \<Rightarrow> bool" where
  "fl_ge a b = fl_le b a"

definition fl_ne :: "fl \<Rightarrow> fl \<Rightarrow> bool" where
  "fl_ne a b = (\<not> fl_eq a b)"

text \<open>
  Where the program rounds to decimals, in the position size and in the synthetic history,
  the result depends on the binary arithmetic, and the operations are those of IEEE
  doubles: the exact result rounded to the nearest double, a tie going to the even
  neighbour. A double is the real number it stands for. \<open>rnd64\<close> rounds a real to 53
  significant bits, with the fixed spacing of the subnormal numbers below \<open>2 ^ - 1022\<close>;
  a result beyond the largest double, which the program would turn into an infinity, is
  outside the model.
\<close>

definition round_half_even :: "real \<Rightarrow> int" where
  "round_half_even x =
     (let f = \<lfloor>x\<rfloor>; d = x - of_int f
      in if d < 1 / 2 then f else if 1 / 2 < d then f + 1 else if even f then f else f + 1)"

definition pow2 :: "int \<Rightarrow> real" where
  "pow2 e = (if 0 \<le> e then 2 ^ nat e else 1 / 2 ^ nat (- e))"

definition rnd64 :: "real \<Rightarrow> real" where
  "rnd64 x =
     (if x = 0 then 0
      else let e = max \<lfloor>log 2 \<bar>x\<bar>\<rfloor> (- 1022)
           in of_int (round_half_even (x / pow2 (e - 52))) * pow2 (e - 52))"

definition fadd :: "real \<Rightarrow> real \<Rightarrow> real" where
  "fadd a b = rnd64 (a + b)"

definition fsub :: "real \<Rightarrow> real \<Rightarrow> real" where
  "fsub a b = rnd64 (a - b)"

definition fmul :: "real \<Rightarrow> real \<Rightarrow> real" where
  "fmul a b = rnd64 (a * b)"


text \<open>A decimal literal of the program denotes the double nearest to it.\<close>

definition py_float :: "real \<Rightarrow> real" where
  "py_float x = rnd64 x"

text \<open>
  Python's \<open>round(x, nd)\<close> on a float rounds the exact value of the double \<open>x\<close> to \<open>nd\<close>
  decimals, a tie going to the even neighbour, and returns the double nearest to that
  decimal number.
\<close>

definition py_round :: "real \<Rightarrow> nat \<Rightarrow> real" where
  "py_round x nd = rnd64 (of_int (round_half_even (x * 10 ^ nd)) / 10 ^ nd)"

text \<open>The doubles that the literals \<open>0.1\<close> and \<open>0.8\<close> denote.\<close>

definition tenth :: real where
  "tenth = 3602879701896397 / 36028797018963968"

definition eight_tenths :: real where
  "eight_tenths = 3602879701896397 / 4503599627370496"

text \<open>
  A Python \<open>str\<close> is a sequence of Unicode code points. The program's literals are Chinese
  text; each is written as its list of code points, with a translation beside it.
\<close>

type_synonym ustr = "nat list"

definition BUY_STR :: ustr where
  \<comment> \<open>the action text for buy\<close>
  "BUY_STR =
    [0x4E70, 0x5165]"

definition SELL_STR :: ustr where
  \<comment> \<open>the action text for sell\<close>
  "SELL_STR =
    [0x5356, 0x51FA]"

definition HOLD_STR :: ustr where
  \<comment> \<open>the action text for hold\<close>
  "HOLD_STR =
    [0x6301, 0x6709]"

definition NAME_MA :: ustr where
  \<comment> \<open>strategy name: dual moving average\<close>
  "NAME_MA =
    [0x53CC, 0x5747, 0x7EBF]"

definition NAME_RSI :: ustr where
  \<comment> \<open>strategy name: RSI\<close>
  "NAME_RSI =
    [0x52, 0x53, 0x49]"

definition NAME_BOLL :: ustr where
  \<comment> \<open>strategy name: Bollinger band\<close>
  "NAME_BOLL =
    [0x5E03, 0x6797, 0x5E26]"

definition D_INSUFFICIENT :: ustr where
  \<comment> \<open>insufficient data\<close>
  "D_INSUFFICIENT =
    [0x6570, 0x636E, 0x4E0D, 0x8DB3]"

definition D_MA_GOLDEN :: ustr where
  \<comment> \<open>golden cross formed, price above the average\<close>
  "D_MA_GOLDEN =
    [0x91D1, 0x53C9, 0x5F62, 0x6210, 0xFF0C, 0x4EF7, 0x683C, 0x7AD9, 0x4E0A, 0x5747,
     0x7EBF]"

definition D_MA_DEATH :: ustr where
  \<comment> \<open>death cross formed, mind the risk\<close>
  "D_MA_DEATH =
    [0x6B7B, 0x53C9, 0x5F62, 0x6210, 0xFF0C, 0x6CE8, 0x610F, 0x98CE, 0x9669]"

definition D_MA_UP :: ustr where
  \<comment> \<open>short average above and rising\<close>
  "D_MA_UP =
    [0x77ED, 0x671F, 0x5747, 0x7EBF, 0x5728, 0x4E0A, 0x4E14, 0x4E0A, 0x5347, 0x8D8B,
     0x52BF]"

definition D_MA_DOWN :: ustr where
  \<comment> \<open>medium and long term trend downwards\<close>
  "D_MA_DOWN =
    [0x4E2D, 0x957F, 0x671F, 0x8D8B, 0x52BF, 0x5411, 0x4E0B]"

definition D_MA_STABLE :: ustr where
  \<comment> \<open>price stable for now, averages consolidating\<close>
  "D_MA_STABLE =
    [0x4EF7, 0x683C, 0x6682, 0x7A33, 0xFF0C, 0x5747, 0x7EBF, 0x6574, 0x7406, 0x4E2D]"

definition D_MA_WAIT :: ustr where
  \<comment> \<open>mostly wait and see\<close>
  "D_MA_WAIT =
    [0x89C2, 0x671B, 0x4E3A, 0x4E3B]"

definition D_RSI_EQ :: ustr where
  \<comment> \<open>prefix of the formatted RSI value\<close>
  "D_RSI_EQ =
    [0x52, 0x53, 0x49, 0x3D]"

definition D_RSI_OVERBOUGHT :: ustr where
  \<comment> \<open>overbought zone\<close>
  "D_RSI_OVERBOUGHT =
    [0xFF0C, 0x8D85, 0x4E70, 0x533A, 0x57DF]"

definition D_RSI_OVERSOLD :: ustr where
  \<comment> \<open>oversold zone\<close>
  "D_RSI_OVERSOLD =
    [0xFF0C, 0x8D85, 0x5356, 0x533A, 0x57DF]"

definition D_RSI_TURN_DOWN :: ustr where
  \<comment> \<open>RSI turning down, a correction is possible\<close>
  "D_RSI_TURN_DOWN =
    [0x52, 0x53, 0x49, 0x62D0, 0x5934, 0x5411, 0x4E0B, 0xFF0C, 0x53EF, 0x80FD,
     0x8C03, 0x6574]"

definition D_RSI_TURN_UP :: ustr where
  \<comment> \<open>RSI turning up, a rebound is possible\<close>
  "D_RSI_TURN_UP =
    [0x52, 0x53, 0x49, 0x62D0, 0x5934, 0x5411, 0x4E0A, 0xFF0C, 0x53EF, 0x80FD,
     0x53CD, 0x5F39]"

definition D_RSI_STRONG :: ustr where
  \<comment> \<open>rather strong zone\<close>
  "D_RSI_STRONG =
    [0xFF0C, 0x504F, 0x5F3A, 0x533A, 0x57DF]"

definition D_RSI_WEAK :: ustr where
  \<comment> \<open>rather weak zone\<close>
  "D_RSI_WEAK =
    [0xFF0C, 0x504F, 0x5F31, 0x533A, 0x57DF]"

definition D_BB_UPPER :: ustr where
  \<comment> \<open>price touches the upper band, beware of a pullback\<close>
  "D_BB_UPPER =
    [0x4EF7, 0x683C, 0x89E6, 0x53CA, 0x4E0A, 0x8F68, 0xFF0C, 0x8B66, 0x60D5, 0x56DE,
     0x8C03]"

definition D_BB_LOWER :: ustr where
  \<comment> \<open>price touches the lower band, a rebound is possible\<close>
  "D_BB_LOWER =
    [0x4EF7, 0x683C, 0x89E6, 0x53CA, 0x4E0B, 0x8F68, 0xFF0C, 0x53EF, 0x80FD, 0x53CD,
     0x5F39]"

definition D_BB_NEAR_UPPER :: ustr where
  \<comment> \<open>price near the upper band and volatility growing\<close>
  "D_BB_NEAR_UPPER =
    [0x4EF7, 0x683C, 0x63A5, 0x8FD1, 0x4E0A, 0x8F68, 0x4E14, 0x6CE2, 0x52A8, 0x653E,
     0x5927]"

definition D_BB_NEAR_LOWER :: ustr where
  \<comment> \<open>price near the lower band and volatility growing\<close>
  "D_BB_NEAR_LOWER =
    [0x4EF7, 0x683C, 0x63A5, 0x8FD1, 0x4E0B, 0x8F68, 0x4E14, 0x6CE2, 0x52A8, 0x653E,
     0x5927]"

definition D_BB_ABOVE_MID :: ustr where
  \<comment> \<open>price runs above the middle band\<close>
  "D_BB_ABOVE_MID =
    [0x4EF7, 0x683C, 0x5728, 0x4E2D, 0x8F68, 0x4E0A, 0x65B9, 0x8FD0, 0x884C]"

definition D_BB_BELOW_MID :: ustr where
  \<comment> \<open>price runs below the middle band\<close>
  "D_BB_BELOW_MID =
    [0x4EF7, 0x683C, 0x5728, 0x4E2D, 0x8F68, 0x4E0B, 0x65B9, 0x8FD0, 0x884C]"

definition P_HEAD :: ustr where
  \<comment> \<open>prompt: head, up to the final action\<close>
  "P_HEAD =
    [0xA, 0x8BF7, 0x5206, 0x6790, 0x4EE5, 0x4E0B, 0x45, 0x54, 0x46, 0x7B56, 0x7565,
     0x4FE1, 0x53F7, 0x5E76, 0x7ED9, 0x51FA, 0x6295, 0x8D44, 0x5EFA, 0x8BAE, 0xFF1A,
     0xA, 0xA, 0x6700, 0x7EC8, 0x64CD, 0x4F5C, 0x5EFA, 0x8BAE, 0xFF1A]"

definition P_CONF :: ustr where
  \<comment> \<open>prompt: label of the overall confidence\<close>
  "P_CONF =
    [0xA, 0x7EFC, 0x5408, 0x7F6E, 0x4FE1, 0x5EA6, 0xFF1A]"

definition P_SIGNALS :: ustr where
  \<comment> \<open>prompt: heading of the signal lines\<close>
  "P_SIGNALS =
    [0xA, 0xA, 0x5404, 0x7B56, 0x7565, 0x4FE1, 0x53F7, 0xFF1A, 0xA]"

definition P_DASH :: ustr where
  \<comment> \<open>prompt: start of a signal line\<close>
  "P_DASH =
    [0x2D, 0x20]"

definition P_COLON :: ustr where
  \<comment> \<open>prompt: between name and action\<close>
  "P_COLON =
    [0x3A, 0x20]"

definition P_OPEN :: ustr where
  \<comment> \<open>prompt: before the signal's confidence\<close>
  "P_OPEN =
    [0x20, 0x28, 0x7F6E, 0x4FE1, 0x5EA6]"

definition P_CLOSE :: ustr where
  \<comment> \<open>prompt: after the signal's confidence\<close>
  "P_CLOSE =
    [0x29, 0x20, 0x2D, 0x20]"

definition P_NL :: ustr where
  \<comment> \<open>prompt: end of a signal line\<close>
  "P_NL =
    [0xA]"

definition P_TAIL :: ustr where
  \<comment> \<open>prompt: closing instructions\<close>
  "P_TAIL =
    [0xA, 0x8BF7, 0x7528, 0x7B80, 0x6D01, 0x6E05, 0x6670, 0x7684, 0x8BED, 0x53E5,
     0x603B, 0x7ED3, 0xFF1A, 0xA, 0x31, 0x2E, 0x20, 0x5F53, 0x524D, 0x5E02, 0x573A,
     0x72B6, 0x6001, 0xA, 0x32, 0x2E, 0x20, 0x64CD, 0x4F5C, 0x7406, 0x7531, 0xA,
     0x33, 0x2E, 0x20, 0x98CE, 0x9669, 0x63D0, 0x793A, 0xA, 0x34, 0x2E, 0x20,
     0x5EFA, 0x8BAE, 0x4ED3, 0x4F4D, 0xA, 0xA, 0x56DE, 0x590D, 0x63A7, 0x5236,
     0x5728, 0x31, 0x30, 0x30, 0x5B57, 0x4EE5, 0x5185, 0x3002, 0xA]"

definition A_BUY :: ustr where
  \<comment> \<open>advice for buy\<close>
  "A_BUY =
    [0x6280, 0x672F, 0x6307, 0x6807, 0x663E, 0x793A, 0x4E0A, 0x6DA8, 0x4FE1, 0x53F7,
     0xFF0C, 0x5EFA, 0x8BAE, 0x9002, 0x5EA6, 0x5EFA, 0x4ED3]"

definition A_SELL :: ustr where
  \<comment> \<open>advice for sell\<close>
  "A_SELL =
    [0x6280, 0x672F, 0x6307, 0x6807, 0x663E, 0x793A, 0x8C03, 0x6574, 0x98CE, 0x9669,
     0xFF0C, 0x5EFA, 0x8BAE, 0x9002, 0x5F53, 0x51CF, 0x4ED3]"

definition A_HOLD :: ustr where
  \<comment> \<open>advice for hold\<close>
  "A_HOLD =
    [0x5E02, 0x573A, 0x65B9, 0x5411, 0x4E0D, 0x660E, 0xFF0C, 0x5EFA, 0x8BAE, 0x89C2,
     0x671B, 0x7B49, 0x5F85]"

definition A_STRONG :: ustr where
  \<comment> \<open>suffix: the signal is strong\<close>
  "A_STRONG =
    [0xFF0C, 0x4FE1, 0x53F7, 0x8F83, 0x5F3A, 0x3002]"

definition A_WEAK :: ustr where
  \<comment> \<open>suffix: the signal is weak, be careful\<close>
  "A_WEAK =
    [0xFF0C, 0x4FE1, 0x53F7, 0x8F83, 0x5F31, 0xFF0C, 0x8C28, 0x614E, 0x64CD, 0x4F5C,
     0x3002]"

definition A_STOP :: ustr where
  \<comment> \<open>suffix: full stop\<close>
  "A_STOP =
    [0x3002]"

definition A_RISK_BUY :: ustr where
  \<comment> \<open>risk note for buy\<close>
  "A_RISK_BUY =
    [0x6CE8, 0x610F, 0x63A7, 0x5236, 0x4ED3, 0x4F4D, 0xFF0C, 0x8BBE, 0x7F6E, 0x6B62,
     0x635F, 0x4F4D, 0x3002]"

definition A_RISK_SELL :: ustr where
  \<comment> \<open>risk note for sell\<close>
  "A_RISK_SELL =
    [0x53EF, 0x8003, 0x8651, 0x5206, 0x6279, 0x51CF, 0x4ED3, 0xFF0C, 0x56DE, 0x8C03,
     0x540E, 0x62E9, 0x673A, 0x63A5, 0x56DE, 0x3002]"


section \<open>The pandas operations the program uses\<close>

text \<open>
  A column of a data frame is a list of floats. \<open>diff\<close> has no value at the first row;
  \<open>where\<close> keeps an entry where the condition holds and puts the replacement elsewhere,
  and a comparison with a missing entry does not hold; \<open>fillna\<close> replaces the missing
  entries alone.
\<close>

definition diff :: "fl list \<Rightarrow> fl list" where
  "diff xs = map (\<lambda>i. if i = 0 then NaN else fl_sub (xs ! i) (xs ! (i - 1))) [0..<length xs]"

definition series_where :: "(fl \<Rightarrow> bool) \<Rightarrow> fl \<Rightarrow> fl list \<Rightarrow> fl list" where
  "series_where cond other xs = map (\<lambda>x. if cond x then x else other) xs"

definition fillna :: "real \<Rightarrow> fl list \<Rightarrow> fl list" where
  "fillna v xs = map (\<lambda>x. if x = NaN then Fin v else x) xs"

text \<open>
  \<open>rolling(window=w)\<close> looks at the \<open>w\<close> entries that end at a row, and requires \<open>w\<close>
  observations: a row with fewer entries before it, or with a missing entry in its window,
  has no value. The program only rolls over series computed from the finite prices; a
  window holding an infinity is given no value here.
\<close>

fun fin_of :: "fl \<Rightarrow> real option" where
  "fin_of (Fin a) = Some a"
| "fin_of _ = None"

definition window_at :: "nat \<Rightarrow> nat \<Rightarrow> fl list \<Rightarrow> real list option" where
  "window_at w i xs =
     (if w = 0 \<or> i + 1 < w then None else those (map fin_of (take w (drop (i + 1 - w) xs))))"

definition rolling_mean :: "nat \<Rightarrow> fl list \<Rightarrow> fl list" where
  "rolling_mean w xs =
     map (\<lambda>i. case window_at w i xs of None \<Rightarrow> NaN
              | Some ys \<Rightarrow> Fin (sum_list ys / real w)) [0..<length xs]"

text \<open>The rolling standard deviation is the sample one (divisor \<open>w - 1\<close>), undefined for one observation.\<close>

definition rolling_std :: "nat \<Rightarrow> fl list \<Rightarrow> fl list" where
  "rolling_std w xs =
     map (\<lambda>i. case window_at w i xs of None \<Rightarrow> NaN
              | Some ys \<Rightarrow>
                  if w < 2 then NaN
                  else let m = sum_list ys / real w
                       in Fin (sqrt (sum_list (map (\<lambda>y. (y - m) ^ 2) ys) / real (w - 1))))
         [0..<length xs]"

section \<open>Signals and the strategy engine (strategy\_engine.py)\<close>

text \<open>
  A signal's action is one of three fixed texts, \<open>BUY_STR\<close>, \<open>SELL_STR\<close> and
  \<open>HOLD_STR\<close>; they are the keys of the vote dictionaries. The enumeration stands for them.
\<close>

datatype action = Buy | Sell | Hold

fun action_str :: "action \<Rightarrow> ustr" where
  "action_str Buy = BUY_STR"
| "action_str Sell = SELL_STR"
| "action_str Hold = HOLD_STR"

record Signal =
  name :: ustr
  signal :: action
  confidence :: real
  details :: ustr

record StrategyResult =
  signals :: "Signal list"
  final_action :: action
  confidence :: real
  votes :: "action \<Rightarrow> nat"

subsection \<open>The three strategies\<close>

text \<open>
  Each \<open>analyze\<close> reads the rows from the end: \<open>iloc[-k]\<close> is row \<open>n - k\<close>. The guard at
  the top of each function makes these rows exist. The floats of a comparison may be
  missing or infinite, so the comparisons are those of \<open>fl\<close>.
\<close>

definition MovingAverageStrategy_analyze :: "nat \<Rightarrow> nat \<Rightarrow> real list \<Rightarrow> Signal" where
  "MovingAverageStrategy_analyze short_window long_window prices =
     (if length prices < long_window + 5
      then \<lparr>name = NAME_MA, signal = Hold, confidence = 0.5, details = D_INSUFFICIENT\<rparr>
      else
        let close = map Fin prices;
            n = length prices;
            ma_short = rolling_mean short_window close;
            ma_long = rolling_mean long_window close;
            current_price = Fin (prices ! (n - 1));
            current_ma_short = ma_short ! (n - 1);
            current_ma_long = ma_long ! (n - 1);
            prev_ma_short = ma_short ! (n - 2);
            prev_ma_long = ma_long ! (n - 2);
            short_trend =
              (if 5 \<le> n then fl_sub (fl_div (ma_short ! (n - 1)) (ma_short ! (n - 5))) (Fin 1)
               else Fin 0);
            long_trend =
              (if 10 \<le> n then fl_sub (fl_div (ma_long ! (n - 1)) (ma_long ! (n - 10))) (Fin 1)
               else Fin 0);
            golden_cross =
              (fl_le prev_ma_short prev_ma_long \<and> fl_gt current_ma_short current_ma_long);
            death_cross =
              (fl_ge prev_ma_short prev_ma_long \<and> fl_lt current_ma_short current_ma_long);
            price_above_ma = fl_gt current_price current_ma_short
        in if golden_cross \<and> price_above_ma
           then \<lparr>name = NAME_MA, signal = Buy, confidence = 0.85, details = D_MA_GOLDEN\<rparr>
           else if death_cross
           then \<lparr>name = NAME_MA, signal = Sell, confidence = 0.80, details = D_MA_DEATH\<rparr>
           else if fl_gt current_ma_short current_ma_long \<and> fl_gt short_trend (Fin 0)
           then \<lparr>name = NAME_MA, signal = Buy, confidence = 0.70, details = D_MA_UP\<rparr>
           else if fl_lt current_ma_short current_ma_long \<and> fl_lt long_trend (Fin (- 0.02))
           then \<lparr>name = NAME_MA, signal = Sell, confidence = 0.70, details = D_MA_DOWN\<rparr>
           else if price_above_ma
           then \<lparr>name = NAME_MA, signal = Hold, confidence = 0.60, details = D_MA_STABLE\<rparr>
           else \<lparr>name = NAME_MA, signal = Hold, confidence = 0.55, details = D_MA_WAIT\<rparr>)"

text \<open>
  The RSI strategy computes the index itself and fills nothing in. Its details print
  the index with one decimal; the float formatting is the parameter \<open>fmt_1f\<close>.
\<close>

definition RSIStrategy_analyze ::
    "(fl \<Rightarrow> ustr) \<Rightarrow> nat \<Rightarrow> real \<Rightarrow> real \<Rightarrow> real list \<Rightarrow> Signal" where
  "RSIStrategy_analyze fmt_1f period overbought oversold prices =
     (if length prices < period + 5
      then \<lparr>name = NAME_RSI, signal = Hold, confidence = 0.5, details = D_INSUFFICIENT\<rparr>
      else
        let close = map Fin prices;
            n = length prices;
            delta = diff close;
            gain = rolling_mean period (series_where (\<lambda>d. fl_gt d (Fin 0)) (Fin 0) delta);
            loss = map fl_neg
                     (rolling_mean period (series_where (\<lambda>d. fl_lt d (Fin 0)) (Fin 0) delta));
            rs = map2 fl_div gain loss;
            rsi = map (\<lambda>r. fl_sub (Fin 100) (fl_div (Fin 100) (fl_add (Fin 1) r))) rs;
            current_rsi = rsi ! (n - 1);
            rsi_trend = (if 5 \<le> n then fl_sub (rsi ! (n - 1)) (rsi ! (n - 5)) else Fin 0)
        in if fl_ge current_rsi (Fin overbought)
           then \<lparr>name = NAME_RSI, signal = Sell, confidence = 0.85,
                 details = D_RSI_EQ @ fmt_1f current_rsi @ D_RSI_OVERBOUGHT\<rparr>
           else if fl_le current_rsi (Fin oversold)
           then \<lparr>name = NAME_RSI, signal = Buy, confidence = 0.80,
                 details = D_RSI_EQ @ fmt_1f current_rsi @ D_RSI_OVERSOLD\<rparr>
           else if fl_gt current_rsi (Fin 60) \<and> fl_lt rsi_trend (Fin (- 5))
           then \<lparr>name = NAME_RSI, signal = Sell, confidence = 0.65, details = D_RSI_TURN_DOWN\<rparr>
           else if fl_lt current_rsi (Fin 40) \<and> fl_gt rsi_trend (Fin 5)
           then \<lparr>name = NAME_RSI, signal = Buy, confidence = 0.65, details = D_RSI_TURN_UP\<rparr>
           else if fl_gt current_rsi (Fin 50)
           then \<lparr>name = NAME_RSI, signal = Hold, confidence = 0.55,
                 details = D_RSI_EQ @ fmt_1f current_rsi @ D_RSI_STRONG\<rparr>
           else \<lparr>name = NAME_RSI, signal = Hold, confidence = 0.55,
                 details = D_RSI_EQ @ fmt_1f current_rsi @ D_RSI_WEAK\<rparr>)"

definition BollingerBandStrategy_analyze :: "nat \<Rightarrow> real \<Rightarrow> real list \<Rightarrow> Signal" where
  "BollingerBandStrategy_analyze window std_dev prices =
     (if length prices < window + 5
      then \<lparr>name = NAME_BOLL, signal = Hold, confidence = 0.5, details = D_INSUFFICIENT\<rparr>
      else
        let close = map Fin prices;
            n = length prices;
            middle = rolling_mean window close;
            std = rolling_std window close;
            upper = map2 fl_add middle (map (fl_mul (Fin std_dev)) std);
            lower = map2 fl_sub middle (map (fl_mul (Fin std_dev)) std);
            current_price = Fin (prices ! (n - 1));
            current_upper = upper ! (n - 1);
            current_lower = lower ! (n - 1);
            current_middle = middle ! (n - 1);
            position =
              (if fl_ne current_upper current_lower
               then fl_div (fl_sub current_price current_lower)
                           (fl_sub current_upper current_lower)
               else Fin 0.5);
            bandwidth = fl_div (fl_sub current_upper current_lower) current_middle;
            prev_bandwidth =
              fl_div (fl_sub (upper ! (n - 2)) (lower ! (n - 2))) (middle ! (n - 2));
            volatility_change =
              (if fl_gt prev_bandwidth (Fin 0) then fl_div bandwidth prev_bandwidth else Fin 1)
        in if fl_ge current_price current_upper
           then \<lparr>name = NAME_BOLL, signal = Sell, confidence = 0.85, details = D_BB_UPPER\<rparr>
           else if fl_le current_price current_lower
           then \<lparr>name = NAME_BOLL, signal = Buy, confidence = 0.80, details = D_BB_LOWER\<rparr>
           else if fl_gt position (Fin 0.8) \<and> fl_gt volatility_change (Fin 1.1)
           then \<lparr>name = NAME_BOLL, signal = Sell, confidence = 0.70, details = D_BB_NEAR_UPPER\<rparr>
           else if fl_lt position (Fin 0.2) \<and> fl_gt volatility_change (Fin 1.1)
           then \<lparr>name = NAME_BOLL, signal = Buy, confidence = 0.70, details = D_BB_NEAR_LOWER\<rparr>
           else if fl_gt position (Fin 0.5)
           then \<lparr>name = NAME_BOLL, signal = Hold, confidence = 0.55, details = D_BB_ABOVE_MID\<rparr>
           else \<lparr>name = NAME_BOLL, signal = Hold, confidence = 0.55, details = D_BB_BELOW_MID\<rparr>)"

subsection \<open>The vote (StrategyEngine.analyze, second half)\<close>

text \<open>
  The loop over the signals adds one vote and the signal's confidence to the entries of its
  action in the two dictionaries, which start at zero for the three actions.
\<close>

definition tally_step :: "(action \<Rightarrow> nat) \<times> (action \<Rightarrow> real) \<Rightarrow> Signal \<Rightarrow>
    (action \<Rightarrow> nat) \<times> (action \<Rightarrow> real)" where
  "tally_step acc s =
     (case acc of (votes_d, total_confidence) \<Rightarrow>
        (votes_d(signal s := votes_d (signal s) + 1),
         total_confidence(signal s := total_confidence (signal s) + Signal.confidence s)))"

definition tally :: "Signal list \<Rightarrow> (action \<Rightarrow> nat) \<times> (action \<Rightarrow> real)" where
  "tally sigs = foldl tally_step (\<lambda>_. 0, \<lambda>_. 0) sigs"

text \<open>
  Python compares the key tuples \<open>(votes[x], total_confidence[x])\<close> lexicographically, and
  \<open>max\<close> keeps the first of the greatest elements: a later element replaces the best one
  only when its key is strictly greater. The dictionary is read in insertion order: buy,
  sell, hold.
\<close>

definition tuple_gt :: "nat \<times> real \<Rightarrow> nat \<times> real \<Rightarrow> bool" where
  "tuple_gt p q = (fst q < fst p \<or> (fst p = fst q \<and> snd q < snd p))"

fun max_from :: "('a \<Rightarrow> nat \<times> real) \<Rightarrow> 'a \<Rightarrow> 'a list \<Rightarrow> 'a" where
  "max_from key best [] = best"
| "max_from key best (x # xs) = max_from key (if tuple_gt (key x) (key best) then x else best) xs"

definition vote :: "Signal list \<Rightarrow> StrategyResult" where
  "vote sigs =
     (case tally sigs of (votes_d, total_confidence) \<Rightarrow>
        let final_act = max_from (\<lambda>x. (votes_d x, total_confidence x)) Buy [Sell, Hold];
            avg_confidence =
              (if 0 < votes_d final_act
               then total_confidence final_act / real (votes_d final_act) else 0.5)
        in \<lparr>signals = sigs, final_action = final_act, confidence = avg_confidence,
            votes = votes_d\<rparr>)"

text \<open>
  The engine runs its three strategies, built with the windows 5 and 20, the period 14 with
  the thresholds 70 and 30, and the window 20 with two standard deviations, and votes.
\<close>

definition StrategyEngine_analyze :: "(fl \<Rightarrow> ustr) \<Rightarrow> real list \<Rightarrow> StrategyResult" where
  "StrategyEngine_analyze fmt_1f prices =
     vote [MovingAverageStrategy_analyze 5 20 prices,
           RSIStrategy_analyze fmt_1f 14 70 30 prices,
           BollingerBandStrategy_analyze 20 2 prices]"

subsection \<open>The position size (StrategyEngine.calculate\_position)\<close>

text \<open>
  The capital and the confidence are doubles, and every operation rounds. For two numbers
  Python's \<open>max\<close> and \<open>min\<close> are the greater and the smaller one.
\<close>

definition calculate_position :: "real \<Rightarrow> real \<Rightarrow> action \<Rightarrow> real" where
  "calculate_position total_capital conf final_act =
     (if final_act \<noteq> Buy then 0
      else let position_pct =
                 fadd (py_float 0.1) (fmul (fsub conf (py_float 0.5)) (py_float 0.8));
               position_pct = max (py_float 0.1) (min (py_float 0.5) position_pct)
           in py_round (fmul total_capital position_pct) 2)"

section \<open>The indicators of the data service (data\_service.py, PriceDataProcessor)\<close>

definition calculate_ma :: "real list \<Rightarrow> nat \<Rightarrow> fl list" where
  "calculate_ma prices window =
     (if length prices < window then replicate (length prices) (Fin 0.0)
      else fillna 0 (rolling_mean window (map Fin prices)))"

text \<open>Here the losses are negated before the rolling mean, in the RSI strategy after it.\<close>

definition calculate_rsi :: "real list \<Rightarrow> nat \<Rightarrow> fl list" where
  "calculate_rsi prices period =
     (if length prices < period + 1 then replicate (length prices) (Fin 0.0)
      else
        let close = map Fin prices;
            delta = diff close;
            gain = rolling_mean period (series_where (\<lambda>d. fl_gt d (Fin 0)) (Fin 0) delta);
            loss = rolling_mean period
                     (map fl_neg (series_where (\<lambda>d. fl_lt d (Fin 0)) (Fin 0) delta));
            rs = map2 fl_div gain loss;
            rsi = map (\<lambda>r. fl_sub (Fin 100) (fl_div (Fin 100) (fl_add (Fin 1) r))) rs
        in fillna 50 rsi)"

record bands =
  upper :: "fl list"
  middle :: "fl list"
  lower :: "fl list"

definition calculate_bollinger_bands :: "real list \<Rightarrow> nat \<Rightarrow> real \<Rightarrow> bands" where
  "calculate_bollinger_bands prices window std_dev =
     (if length prices < window then \<lparr>upper = [], middle = [], lower = []\<rparr>
      else
        let close = map Fin prices;
            df_middle = rolling_mean window close;
            df_std = rolling_std window close;
            df_upper = map2 fl_add df_middle (map (fl_mul (Fin std_dev)) df_std);
            df_lower = map2 fl_sub df_middle (map (fl_mul (Fin std_dev)) df_std)
        in \<lparr>upper = fillna 0 df_upper, middle = fillna 0 df_middle,
            lower = fillna 0 df_lower\<rparr>)"

section \<open>The synthetic price history (data\_service.py, ETFDataService.\_generate\_mock\_history)\<close>




record mock_history =
  code :: ustr
  period_days :: nat
  dates :: "ustr list"
  prices :: "real list"
  volumes :: "int list"



section \<open>The advice service (llm\_service.py, LLMService)\<close>

text \<open>
  The cache is the table \<open>llm_cache\<close>, whose column \<open>signal_key\<close> is declared unique: the
  table is the list of its rows, and an insert of a key that is already there fails. The
  identifier and the creation time of a row are not read by the service and are left out.
  Both cache functions catch every exception of the store; the only one modelled is this
  failed insert, after which the table is as before.
\<close>

record LLMCache =
  signal_key :: ustr
  prompt :: ustr
  response :: ustr
  expires_at :: int

definition hours_us :: "int \<Rightarrow> int" where
  "hours_us h = h * 3600000000"

definition get_cached_response :: "LLMCache list \<Rightarrow> ustr \<Rightarrow> int \<Rightarrow> ustr option" where
  "get_cached_response table cache_key now =
     (case find (\<lambda>c. signal_key c = cache_key) table of
        None \<Rightarrow> None
      | Some cached \<Rightarrow> if now < expires_at cached then Some (response cached) else None)"

definition save_to_cache :: "LLMCache list \<Rightarrow> ustr \<Rightarrow> ustr \<Rightarrow> ustr \<Rightarrow> int \<Rightarrow> LLMCache list" where
  "save_to_cache table cache_key prompt_text response_text now =
     (if find (\<lambda>c. signal_key c = cache_key) table \<noteq> None then table
      else table @ [\<lparr>signal_key = cache_key, prompt = prompt_text, response = response_text,
                     expires_at = now + hours_us 24\<rparr>])"

text \<open>
  The fallback advice. The action is one of the three keys of \<open>action_desc\<close>, so the
  default of the lookup is never taken. The votes are read and not used.
\<close>

definition rule_based_advice :: "StrategyResult \<Rightarrow> ustr" where
  "rule_based_advice strategy_result =
     (let final_act = final_action strategy_result;
          conf = StrategyResult.confidence strategy_result;
          advice0 = (case final_act of Buy \<Rightarrow> A_BUY | Sell \<Rightarrow> A_SELL | Hold \<Rightarrow> A_HOLD);
          advice1 = (if 0.75 < conf then advice0 @ A_STRONG
                     else if conf < 0.55 then advice0 @ A_WEAK
                     else advice0 @ A_STOP)
      in if final_act = Buy then advice1 @ A_RISK_BUY
         else if final_act = Sell then advice1 @ A_RISK_SELL
         else advice1)"

text \<open>
  The prompt. \<open>fmt_pct\<close> is Python's formatting of a float as a percentage without
  decimals.
\<close>

definition build_prompt :: "(real \<Rightarrow> ustr) \<Rightarrow> StrategyResult \<Rightarrow> ustr" where
  "build_prompt fmt_pct strategy_result =
     P_HEAD @ action_str (final_action strategy_result) @
     P_CONF @ fmt_pct (StrategyResult.confidence strategy_result) @
     P_SIGNALS @
     concat (map (\<lambda>s. P_DASH @ name s @ P_COLON @ action_str (signal s) @
                       P_OPEN @ fmt_pct (Signal.confidence s) @ P_CLOSE @ details s @ P_NL)
                 (signals strategy_result)) @
     P_TAIL"

text \<open>
  The service: the MD5 digest that gives the cache key and the provider are parameters; a
  provider answers with a text or with nothing. The clock is read once for the lookup and
  once for the insert. The result carries the advice, the table afterwards, and the prompts
  that were sent to the provider. Python takes an empty text for false, in the test of the
  cached response as in the test of the provider's answer.
\<close>

record advice_result =
  advice :: ustr
  table_after :: "LLMCache list"
  provider_calls :: "ustr list"

definition generate_advice ::
    "(real \<Rightarrow> ustr) \<Rightarrow> (ustr \<Rightarrow> ustr) \<Rightarrow> (ustr \<Rightarrow> ustr option) \<Rightarrow>
     LLMCache list \<Rightarrow> int \<Rightarrow> int \<Rightarrow> StrategyResult \<Rightarrow> advice_result" where
  "generate_advice fmt_pct md5_hex provider table now_lookup now_save strategy_result =
     (let prompt_text = build_prompt fmt_pct strategy_result;
          cache_key = md5_hex prompt_text;
          cached = get_cached_response table cache_key now_lookup
      in if cached \<noteq> None \<and> cached \<noteq> Some []
         then \<lparr>advice = the cached, table_after = table, provider_calls = []\<rparr>
         else
           let answer = provider prompt_text
           in if answer \<noteq> None \<and> answer \<noteq> Some []
              then \<lparr>advice = the answer,
                    table_after =
                      save_to_cache table cache_key prompt_text (the answer) now_save,
                    provider_calls = [prompt_text]\<rparr>
              else \<lparr>advice = rule_based_advice strategy_result, table_after = table,
                    provider_calls = [prompt_text]\<rparr>)"

section \<open>Notions of the specification\<close>

text \<open>
  The specification speaks of the number of votes of an action and of the summed confidence
  of the signals that voted for it.
\<close>

definition vote_count :: "Signal list \<Rightarrow> action \<Rightarrow> nat" where
  "vote_count sigs a = length (filter (\<lambda>s. signal s = a) sigs)"

definition confidence_sum :: "Signal list \<Rightarrow> action \<Rightarrow> real" where
  "confidence_sum sigs a = sum_list (map Signal.confidence (filter (\<lambda>s. signal s = a) sigs))"

text \<open>
  The trailing window of a row is the \<open>w\<close> entries that end there; the indicators are
  described by its mean and its sample standard deviation. The gain of a step is the
  rise of the price and its loss the fall, both zero at the first row, where there is no
  step.
\<close>

definition trailing_window :: "nat \<Rightarrow> real list \<Rightarrow> nat \<Rightarrow> real list" where
  "trailing_window w xs i = take w (drop (i + 1 - w) xs)"

definition trailing_mean :: "nat \<Rightarrow> real list \<Rightarrow> nat \<Rightarrow> real" where
  "trailing_mean w xs i = sum_list (trailing_window w xs i) / real w"

definition trailing_std :: "nat \<Rightarrow> real list \<Rightarrow> nat \<Rightarrow> real" where
  "trailing_std w xs i =
     sqrt (sum_list (map (\<lambda>y. (y - trailing_mean w xs i) ^ 2) (trailing_window w xs i))
           / real (w - 1))"

definition price_gains :: "real list \<Rightarrow> real list" where
  "price_gains ps = map (\<lambda>i. if i = 0 then 0 else max 0 (ps ! i - ps ! (i - 1))) [0..<length ps]"

definition price_losses :: "real list \<Rightarrow> real list" where
  "price_losses ps = map (\<lambda>i. if i = 0 then 0 else max 0 (ps ! (i - 1) - ps ! i)) [0..<length ps]"

text \<open>
  The fraction of the capital that the position sizer allots: \<open>0.1 + (confidence - 0.5) * 0.8\<close>
  in doubles, clamped to the interval from 0.1 to 0.5.
\<close>

definition allocation_fraction :: "real \<Rightarrow> real" where
  "allocation_fraction c =
     max (py_float 0.1)
       (min (py_float 0.5) (fadd (py_float 0.1) (fmul (fsub c (py_float 0.5)) (py_float 0.8))))"

text \<open>The confidence values that the strategies give.\<close>

definition confidence_levels :: "real set" where
  "confidence_levels = {0.5, 0.55, 0.6, 0.65, 0.7, 0.8, 0.85}"

section \<open>Concrete inputs\<close>

definition sig :: "action \<Rightarrow> real \<Rightarrow> Signal" where
  "sig a c = \<lparr>name = [], signal = a, confidence = c, details = []\<rparr>"

definition spec_tie :: "Signal list" where
  \<comment> \<open>the one-vote-each example of the specification\<close>
  "spec_tie = [sig Buy 0.9, sig Sell 0.95, sig Hold 0.5]"

definition rising15 :: "real list" where
  \<comment> \<open>fifteen prices that only rise\<close>
  "rising15 = [1, 2, 3, 4, 5, 6, 7, 8, 9, 10, 11, 12, 13, 14, 15]"

definition rising14 :: "real list" where
  \<comment> \<open>the first fourteen of them\<close>
  "rising14 = [1, 2, 3, 4, 5, 6, 7, 8, 9, 10, 11, 12, 13, 14]"






definition buy_result :: StrategyResult where
  "buy_result = \<lparr>signals = [sig Buy 0.85], final_action = Buy, confidence = 0.85,
      votes = (\<lambda>_. 0)(Buy := 1)\<rparr>"

definition no_format :: "real \<Rightarrow> ustr" where
  \<comment> \<open>a formatter that prints nothing\<close>
  "no_format x = []"

definition cached_row :: LLMCache where
  \<comment> \<open>a row for the prompt of \<open>buy_result\<close>, keyed by the prompt itself, expiring at time 1000\<close>
  "cached_row = \<lparr>signal_key = build_prompt no_format buy_result,
      prompt = build_prompt no_format buy_result, response = [0x4F, 0x4B], expires_at = 1000\<rparr>"

section \<open>The vote\<close>

lemma foldl_tally_step:
  "foldl tally_step (v, t) sigs =
     (\<lambda>a. v a + vote_count sigs a, \<lambda>a. t a + confidence_sum sigs a)"
proof (induction sigs arbitrary: v t)
  case Nil
  show ?case by (simp add: vote_count_def confidence_sum_def)
next
  case (Cons s sigs)
  have step: "tally_step (v, t) s =
      (v(signal s := v (signal s) + 1), t(signal s := t (signal s) + Signal.confidence s))"
    by (simp add: tally_step_def)
  show ?case
    unfolding foldl_Cons step Cons.IH
    by (auto simp: vote_count_def confidence_sum_def fun_eq_iff)
qed

lemma tally_eq: "tally sigs = (vote_count sigs, confidence_sum sigs)"
  by (simp add: tally_def foldl_tally_step)

lemma tuple_ge_trans: "\<not> tuple_gt q p \<Longrightarrow> \<not> tuple_gt r q \<Longrightarrow> \<not> tuple_gt r p"
  by (auto simp: tuple_gt_def)

lemma max_from_ge_best: "\<not> tuple_gt (key b) (key (max_from key b xs))"
proof (induction xs arbitrary: b)
  case Nil
  show ?case by (simp add: tuple_gt_def)
next
  case (Cons x xs)
  let ?b' = "if tuple_gt (key x) (key b) then x else b"
  have "\<not> tuple_gt (key ?b') (key (max_from key ?b' xs))" by (rule Cons.IH)
  moreover have "\<not> tuple_gt (key b) (key ?b')" by (auto simp: tuple_gt_def)
  ultimately have "\<not> tuple_gt (key b) (key (max_from key ?b' xs))"
    by (rule tuple_ge_trans)
  then show ?case by simp
qed

lemma max_from_greatest:
  "y \<in> set (b # xs) \<Longrightarrow> \<not> tuple_gt (key y) (key (max_from key b xs))"
proof (induction xs arbitrary: b)
  case Nil
  then show ?case by (simp add: tuple_gt_def)
next
  case (Cons x xs)
  let ?b' = "if tuple_gt (key x) (key b) then x else b"
  have best: "\<not> tuple_gt (key ?b') (key (max_from key ?b' xs))" by (rule max_from_ge_best)
  show ?case
  proof (cases "y \<in> set xs")
    case True
    then have "\<not> tuple_gt (key y) (key (max_from key ?b' xs))" using Cons.IH [of ?b'] by simp
    then show ?thesis by simp
  next
    case False
    with Cons.prems have "y = b \<or> y = x" by auto
    then have "\<not> tuple_gt (key y) (key ?b')" by (auto simp: tuple_gt_def)
    with best have "\<not> tuple_gt (key y) (key (max_from key ?b' xs))"
      by (rule tuple_ge_trans)
    then show ?thesis by simp
  qed
qed

lemma action_listed: "a \<in> set [Buy, Sell, Hold]"
  by (cases a) auto

lemma vote_final_action:
  "final_action (vote sigs) =
     max_from (\<lambda>x. (vote_count sigs x, confidence_sum sigs x)) Buy [Sell, Hold]"
  by (simp add: vote_def tally_eq Let_def)

lemma vote_confidence:
  "StrategyResult.confidence (vote sigs) =
     (if 0 < vote_count sigs (final_action (vote sigs))
      then confidence_sum sigs (final_action (vote sigs))
           / real (vote_count sigs (final_action (vote sigs)))
      else 0.5)"
  by (simp add: vote_def tally_eq Let_def)

lemma vote_maximal:
  "vote_count sigs a < vote_count sigs (final_action (vote sigs)) \<or>
   (vote_count sigs a = vote_count sigs (final_action (vote sigs)) \<and>
    confidence_sum sigs a \<le> confidence_sum sigs (final_action (vote sigs)))"
proof -
  let ?key = "\<lambda>x. (vote_count sigs x, confidence_sum sigs x)"
  have "\<not> tuple_gt (?key a) (?key (max_from ?key Buy [Sell, Hold]))"
    by (rule max_from_greatest) (rule action_listed)
  then show ?thesis
    unfolding vote_final_action by (auto simp: tuple_gt_def)
qed

lemma one_vote_each:
  assumes "length sigs = 3" and "distinct (map signal sigs)"
  shows "\<exists>s\<in>set sigs. signal s = final_action (vote sigs) \<and>
           StrategyResult.confidence (vote sigs) = Signal.confidence s \<and>
           (\<forall>s'\<in>set sigs. Signal.confidence s' \<le> Signal.confidence s)"
proof -
  from assms(1) obtain s1 s2 s3 where sigs: "sigs = [s1, s2, s3]"
    by (auto simp: numeral_3_eq_3 length_Suc_conv)
  have one: "vote_count sigs a = 1" for a
    using assms(2) unfolding sigs vote_count_def
    by (cases a; cases "signal s1"; cases "signal s2"; cases "signal s3") auto
  have "\<exists>s\<in>set sigs. signal s = a" for a
    using assms(2) unfolding sigs
    by (cases a; cases "signal s1"; cases "signal s2"; cases "signal s3") auto
  then obtain w where w: "w \<in> set sigs" "signal w = final_action (vote sigs)" by blast
  have sum: "confidence_sum sigs (signal s) = Signal.confidence s" if "s \<in> set sigs" for s
    using assms(2) that unfolding sigs confidence_sum_def
    by (cases "signal s1"; cases "signal s2"; cases "signal s3") auto
  have "Signal.confidence s' \<le> Signal.confidence w" if "s' \<in> set sigs" for s'
    using vote_maximal [of sigs "signal s'"] sum [OF that] sum [OF w(1)] w(2) one by simp
  moreover have "StrategyResult.confidence (vote sigs) = Signal.confidence w"
    using vote_confidence [of sigs] sum [OF w(1)] w(2) one by simp
  ultimately show ?thesis using w by blast
qed

text \<open>
  Claim C1. For the signals of the three strategies (and for any list of signals), the
  final action is greatest for the pair of its vote count and its summed confidence, the
  count compared first and the sum second; the votes reported are the counts; the final
  confidence is the summed confidence of the winner divided by its vote count, and 0.5
  when the winner has no vote. When three signals name three different actions, the
  winner is the action of a signal whose confidence no other signal exceeds, and the
  final confidence is that signal's confidence.
\<close>

theorem vote_takes_lexicographic_maximum:
  "(\<forall>a. vote_count sigs a < vote_count sigs (final_action (vote sigs)) \<or>
        (vote_count sigs a = vote_count sigs (final_action (vote sigs)) \<and>
         confidence_sum sigs a \<le> confidence_sum sigs (final_action (vote sigs)))) \<and>
   votes (vote sigs) = vote_count sigs \<and>
   StrategyResult.confidence (vote sigs) =
     (if 0 < vote_count sigs (final_action (vote sigs))
      then confidence_sum sigs (final_action (vote sigs))
           / real (vote_count sigs (final_action (vote sigs)))
      else 0.5) \<and>
   (length sigs = 3 \<and> distinct (map signal sigs) \<longrightarrow>
      (\<exists>s\<in>set sigs. signal s = final_action (vote sigs) \<and>
         StrategyResult.confidence (vote sigs) = Signal.confidence s \<and>
         (\<forall>s'\<in>set sigs. Signal.confidence s' \<le> Signal.confidence s)))"
proof -
  have "votes (vote sigs) = vote_count sigs"
    by (simp add: vote_def tally_eq Let_def)
  then show ?thesis
    using vote_maximal [of sigs] vote_confidence [of sigs] one_vote_each [of sigs] by blast
qed

theorem vote_takes_lexicographic_maximum_witness:
  "length spec_tie = 3 \<and> distinct (map signal spec_tie) \<and>
   final_action (vote spec_tie) = Sell \<and>
   StrategyResult.confidence (vote spec_tie) = 0.95"
proof -
  have len: "length spec_tie = 3" and dist: "distinct (map signal spec_tie)"
    by (simp_all add: spec_tie_def sig_def)
  from vote_takes_lexicographic_maximum [of spec_tie] len dist
  obtain s where s: "s \<in> set spec_tie" "signal s = final_action (vote spec_tie)"
      "StrategyResult.confidence (vote spec_tie) = Signal.confidence s"
      "\<forall>s'\<in>set spec_tie. Signal.confidence s' \<le> Signal.confidence s"
    by blast
  from s(1,4) have "s = sig Sell 0.95"
    by (auto simp: spec_tie_def sig_def)
  with s(2,3) len dist show ?thesis
    by (simp add: sig_def)
qed

section \<open>The position size\<close>

subsection \<open>Rounding to a double\<close>

lemma pow2_pos: "0 < pow2 e"
  by (simp add: pow2_def)

lemma pow2_powr: "pow2 e = 2 powr (real_of_int e)"
  by (simp add: pow2_def powr_real_of_int inverse_eq_divide)

lemma pow2_mono: "a \<le> b \<Longrightarrow> pow2 a \<le> pow2 b"
  by (simp add: pow2_powr)

lemma pow2_add: "pow2 (a + b) = pow2 a * pow2 b"
  by (simp add: pow2_powr powr_add)

lemma floor_log2_eq:
  assumes "pow2 e \<le> \<bar>x\<bar>" and "\<bar>x\<bar> < pow2 (e + 1)"
  shows "\<lfloor>log 2 \<bar>x\<bar>\<rfloor> = e"
proof -
  from assms(1) pow2_pos [of e] have pos: "0 < \<bar>x\<bar>" by linarith
  have "real_of_int e \<le> log 2 \<bar>x\<bar>"
    using assms(1) pos by (simp add: pow2_powr le_log_iff)
  moreover have "log 2 \<bar>x\<bar> < real_of_int e + 1"
    using assms(2) pos by (simp add: pow2_powr log_less_iff)
  ultimately show ?thesis by (simp add: floor_eq_iff)
qed

lemma rnd64_binade:
  assumes "pow2 e \<le> \<bar>x\<bar>" and "\<bar>x\<bar> < pow2 (e + 1)" and "- 1022 \<le> e"
  shows "rnd64 x = of_int (round_half_even (x / pow2 (e - 52))) * pow2 (e - 52)"
proof -
  from assms(1) pow2_pos [of e] have "x \<noteq> 0" by auto
  moreover have "max \<lfloor>log 2 \<bar>x\<bar>\<rfloor> (- 1022) = e"
    using floor_log2_eq [OF assms(1,2)] assms(3) by simp
  ultimately show ?thesis by (simp add: rnd64_def Let_def)
qed

lemma round_half_even_int [simp]: "round_half_even (of_int n) = n"
  by (simp add: round_half_even_def)

lemma round_half_even_bounds:
  "of_int (round_half_even x) \<le> x + 1 / 2 \<and> x - 1 / 2 \<le> of_int (round_half_even x)"
proof -
  have "of_int \<lfloor>x\<rfloor> \<le> x" "x < of_int \<lfloor>x\<rfloor> + 1" by linarith+
  then show ?thesis
    unfolding round_half_even_def Let_def by (auto; linarith)
qed

lemma round_half_even_mono:
  assumes "x \<le> y"
  shows "round_half_even x \<le> round_half_even y"
proof (cases "\<lfloor>x\<rfloor> = \<lfloor>y\<rfloor>")
  case True
  with assms have "x - of_int \<lfloor>x\<rfloor> \<le> y - of_int \<lfloor>y\<rfloor>" by simp
  with True show ?thesis
    by (auto simp: round_half_even_def Let_def)
next
  case False
  with assms have "\<lfloor>x\<rfloor> < \<lfloor>y\<rfloor>" by (simp add: floor_mono order.strict_iff_order)
  moreover have "round_half_even x \<le> \<lfloor>x\<rfloor> + 1"
    by (auto simp: round_half_even_def Let_def)
  moreover have "\<lfloor>y\<rfloor> \<le> round_half_even y"
    by (auto simp: round_half_even_def Let_def)
  ultimately show ?thesis by linarith
qed

lemma rnd64_nonpos: "x \<le> 0 \<Longrightarrow> rnd64 x \<le> 0"
proof -
  assume x: "x \<le> 0"
  have "of_int (round_half_even (x / pow2 e)) * pow2 e \<le> 0" for e
  proof -
    from x pow2_pos [of e] have "x / pow2 e \<le> 0" by (simp add: divide_nonpos_pos)
    then have "round_half_even (x / pow2 e) \<le> round_half_even 0" by (rule round_half_even_mono)
    then have "round_half_even (x / pow2 e) \<le> 0" using round_half_even_int [of 0] by simp
    then have "real_of_int (round_half_even (x / pow2 e)) \<le> 0" by simp
    with pow2_pos [of e] show ?thesis by (simp add: mult_nonpos_nonneg)
  qed
  then show ?thesis by (simp add: rnd64_def Let_def)
qed

lemma rnd64_le_tenth:
  assumes "x \<le> tenth"
  shows "rnd64 x \<le> tenth"
proof (cases "x \<le> 0")
  case True
  then have "rnd64 x \<le> 0" by (rule rnd64_nonpos)
  then show ?thesis by (simp add: tenth_def)
next
  case False
  then have pos: "0 < x" by simp
  define e where "e = max \<lfloor>log 2 \<bar>x\<bar>\<rfloor> (- 1022)"
  have r: "rnd64 x = of_int (round_half_even (x / pow2 (e - 52))) * pow2 (e - 52)"
    using pos by (simp add: rnd64_def Let_def e_def)
  have "x < pow2 (- 3)" using assms by (simp add: tenth_def pow2_def)
  then have "log 2 x < - 3" using pos by (simp add: pow2_powr log_less_iff)
  then have "\<lfloor>log 2 \<bar>x\<bar>\<rfloor> \<le> - 4" using pos by (simp add: floor_le_iff)
  then have e4: "e \<le> - 4" by (simp add: e_def)
  have up: "x < pow2 (e + 1)"
  proof -
    have "log 2 x < of_int \<lfloor>log 2 x\<rfloor> + 1" by linarith
    also have "\<dots> \<le> of_int e + 1" using pos by (simp add: e_def)
    finally have "log 2 x < real_of_int (e + 1)" by simp
    then show ?thesis using pos by (simp only: pow2_powr) (simp add: log_less_iff)
  qed
  show ?thesis
  proof (cases "e = - 4")
    case True
    have "x / pow2 (e - 52) \<le> tenth / pow2 (e - 52)"
      using assms pow2_pos [of "e - 52"] by (simp add: divide_right_mono)
    then have "round_half_even (x / pow2 (e - 52)) \<le> round_half_even (tenth / pow2 (e - 52))"
      by (rule round_half_even_mono)
    also have "tenth / pow2 (e - 52) = of_int 7205759403792794"
      by (simp add: True tenth_def pow2_def)
    finally have "round_half_even (x / pow2 (e - 52)) \<le> 7205759403792794"
      by (simp only: round_half_even_int)
    then have "real_of_int (round_half_even (x / pow2 (e - 52))) \<le> 7205759403792794"
      by linarith
    then have "rnd64 x \<le> 7205759403792794 * pow2 (e - 52)"
      unfolding r using pow2_pos [of "e - 52"] by (simp add: mult_right_mono)
    also have "\<dots> = tenth" by (simp add: True tenth_def pow2_def)
    finally show ?thesis .
  next
    case False
    with e4 have e5: "e + 1 \<le> - 4" by simp
    have p53: "pow2 53 = of_int 9007199254740992" by (simp add: pow2_def)
    have "x / pow2 (e - 52) \<le> pow2 (e + 1) / pow2 (e - 52)"
      using up pow2_pos [of "e - 52"] by (simp add: divide_right_mono)
    also have "pow2 (e + 1) / pow2 (e - 52) = pow2 53"
      using pow2_add [of "e - 52" 53] pow2_pos [of "e - 52"] by (simp add: field_simps)
    finally have "x / pow2 (e - 52) \<le> of_int 9007199254740992"
      by (simp only: p53)
    then have "round_half_even (x / pow2 (e - 52)) \<le> round_half_even (of_int 9007199254740992)"
      by (rule round_half_even_mono)
    then have "round_half_even (x / pow2 (e - 52)) \<le> 9007199254740992"
      by (simp only: round_half_even_int)
    then have "real_of_int (round_half_even (x / pow2 (e - 52))) \<le> of_int 9007199254740992"
      by (simp only: of_int_le_iff)
    then have "real_of_int (round_half_even (x / pow2 (e - 52))) \<le> pow2 53"
      by (simp only: p53)
    then have "rnd64 x \<le> pow2 53 * pow2 (e - 52)"
      unfolding r using pow2_pos [of "e - 52"] by (simp only: mult_right_mono less_imp_le)
    also have "\<dots> = pow2 (e + 1)"
      by (simp add: pow2_add [symmetric] add.commute)
    also have "\<dots> \<le> pow2 (- 4)" using e5 by (rule pow2_mono)
    also have "\<dots> \<le> tenth" by (simp add: pow2_def tenth_def)
    finally show ?thesis .
  qed
qed

lemmas rnd64_at = pow2_def round_half_even_def

lemma py_float_tenth: "py_float 0.1 = tenth"
  unfolding py_float_def tenth_def using rnd64_binade [of "- 4" "0.1"] by (simp add: rnd64_at)

lemma py_float_half: "py_float 0.5 = 1 / 2"
  unfolding py_float_def using rnd64_binade [of "- 1" "0.5"] by (simp add: rnd64_at)

lemma py_float_eight_tenths: "py_float 0.8 = eight_tenths"
  unfolding py_float_def eight_tenths_def using rnd64_binade [of "- 1" "0.8"]
  by (simp add: rnd64_at)

lemma rnd64_zero: "rnd64 0 = 0"
  by (simp add: rnd64_def)

lemma rnd64_tenth: "rnd64 tenth = tenth"
  unfolding tenth_def
  using rnd64_binade [of "- 4" "3602879701896397 / 36028797018963968"] by (simp add: rnd64_at)

lemma tenth_less_half: "tenth < 1 / 2"
  by (simp add: tenth_def)

subsection \<open>The allotted fraction and the rounded amount\<close>

lemma calculate_position_Buy:
  "calculate_position tc c Buy = py_round (fmul tc (allocation_fraction c)) 2"
  by (simp add: calculate_position_def allocation_fraction_def Let_def)

lemma allocation_fraction_values:
  "allocation_fraction c =
     max tenth (min (1 / 2) (fadd tenth (fmul (fsub c (1 / 2)) eight_tenths)))"
  by (simp only: allocation_fraction_def py_float_tenth py_float_half py_float_eight_tenths)

lemma allocation_fraction_low:
  assumes "c < 0.5"
  shows "allocation_fraction c = py_float 0.1"
proof -
  from assms have "c - 1 / 2 \<le> 0" by simp
  then have d1: "fsub c (1 / 2) \<le> 0"
    unfolding fsub_def by (rule rnd64_nonpos)
  have "0 \<le> eight_tenths" by (simp add: eight_tenths_def)
  with d1 have "fsub c (1 / 2) * eight_tenths \<le> 0" by (rule mult_nonpos_nonneg)
  then have d2: "fmul (fsub c (1 / 2)) eight_tenths \<le> 0"
    unfolding fmul_def by (rule rnd64_nonpos)
  then have "tenth + fmul (fsub c (1 / 2)) eight_tenths \<le> tenth" by simp
  then have d3: "fadd tenth (fmul (fsub c (1 / 2)) eight_tenths) \<le> tenth"
    unfolding fadd_def by (rule rnd64_le_tenth)
  with tenth_less_half show ?thesis
    unfolding allocation_fraction_values py_float_tenth by (auto simp: max_def min_def)
qed

lemma allocation_fraction_range:
  "py_float 0.1 \<le> allocation_fraction c \<and> allocation_fraction c \<le> py_float 0.5"
  unfolding allocation_fraction_values py_float_tenth py_float_half
  using tenth_less_half by (auto simp: max_def min_def)

lemma py_round_two_decimals:
  "\<exists>k. py_round x 2 = py_float (of_int k / 100) \<and> \<bar>of_int k / 100 - x\<bar> \<le> 1 / 200"
proof -
  define k where "k = round_half_even (x * 10 ^ 2)"
  from round_half_even_bounds [of "x * 10 ^ 2"]
  have b: "of_int k \<le> x * 100 + 1 / 2" "x * 100 - 1 / 2 \<le> of_int k"
    by (simp_all add: k_def)
  have "\<bar>of_int k / 100 - x\<bar> \<le> 1 / 200"
  proof (rule abs_leI)
    show "of_int k / 100 - x \<le> 1 / 200" using b by linarith
    show "- (of_int k / 100 - x) \<le> 1 / 200" using b by linarith
  qed
  moreover have "py_round x 2 = py_float (of_int k / 100)"
    by (simp add: py_round_def py_float_def k_def)
  ultimately show ?thesis by blast
qed

lemma allocation_fraction_at_half: "allocation_fraction 0.5 = tenth"
proof -
  have a: "fsub 0.5 (1 / 2) = 0" unfolding fsub_def by (simp add: rnd64_zero)
  have b: "fmul 0 eight_tenths = 0" unfolding fmul_def by (simp add: rnd64_zero)
  have c: "fadd tenth 0 = tenth" unfolding fadd_def by (simp add: rnd64_tenth)
  show ?thesis
    unfolding allocation_fraction_values a b c using tenth_less_half
    by (simp add: max_def min_def)
qed

lemma allocation_fraction_at_one: "allocation_fraction 1 = 1 / 2"
proof -
  have a: "fsub 1 (1 / 2) = 1 / 2"
    unfolding fsub_def using rnd64_binade [of "- 1" "1 - 1 / 2"]
    by (simp add: rnd64_at)
  have b: "fmul (1 / 2) eight_tenths = 3602879701896397 / 9007199254740992"
    unfolding fmul_def eight_tenths_def
    using rnd64_binade [of "- 2" "1 / 2 * (3602879701896397 / 4503599627370496)"]
    by (simp add: rnd64_at)
  have c: "fadd tenth (3602879701896397 / 9007199254740992) = 1 / 2"
    unfolding fadd_def tenth_def
    using rnd64_binade [of "- 1" "3602879701896397 / 36028797018963968 + 3602879701896397 / 9007199254740992"]
    by (simp add: rnd64_at)
  show ?thesis
    unfolding allocation_fraction_values a b c using tenth_less_half
    by (simp add: max_def min_def)
qed

lemma fmul_10000_tenth: "fmul 10000 tenth = 1000"
  unfolding fmul_def tenth_def
  using rnd64_binade [of 9 "10000 * (3602879701896397 / 36028797018963968)"]
  by (simp add: rnd64_at)

lemma py_round_1000: "py_round 1000 2 = 1000"
  unfolding py_round_def using rnd64_binade [of 9 1000] by (simp add: rnd64_at)

lemma position_10000_half: "calculate_position 10000 0.5 Buy = 1000"
  unfolding calculate_position_Buy allocation_fraction_at_half fmul_10000_tenth py_round_1000
  by (rule refl)

lemma position_10000_one: "calculate_position 10000 1 Buy = 5000"
proof -
  have m: "fmul 10000 (1 / 2) = 5000"
    unfolding fmul_def using rnd64_binade [of 12 "10000 * (1 / 2)"] by (simp add: rnd64_at)
  have r: "py_round 5000 2 = 5000"
    unfolding py_round_def using rnd64_binade [of 12 5000] by (simp add: rnd64_at)
  show ?thesis
    unfolding calculate_position_Buy allocation_fraction_at_one m r by (rule refl)
qed

lemma position_rounds_up: "calculate_position 100.25 0.5 Buy = py_float 10.03"
proof -
  have m: "fmul 100.25 tenth = 5643573283048653 / 562949953421312"
    unfolding fmul_def tenth_def
    using rnd64_binade [of 3 "100.25 * (3602879701896397 / 36028797018963968)"]
    by (simp add: rnd64_at)
  have r: "py_round (5643573283048653 / 562949953421312) 2 = py_float 10.03"
    by (simp add: py_round_def py_float_def round_half_even_def)
  show ?thesis
    unfolding calculate_position_Buy allocation_fraction_at_half m r by (rule refl)
qed

lemma py_float_10_03: "py_float 10.03 = 5646388032815759 / 562949953421312"
  unfolding py_float_def using rnd64_binade [of 3 "10.03"] by (simp add: rnd64_at)

text \<open>
  Claim C2. The position is 0 for every action other than buy. For buy it is the capital
  times the allotted fraction, rounded to two decimals: the fraction is
  \<open>0.1 + (confidence - 0.5) * 0.8\<close> clamped to the interval from 0.1 to 0.5, and the
  result is the double of a whole number of hundredths that lies within half a hundredth
  of the product. A confidence below 0.5 gives the fraction 0.1. A capital of 10000 gives
  1000 at confidence 0.5 and 5000 at confidence 1; a capital of 100.25 at confidence 0.5,
  whose product in doubles lies just above 10.025, gives 10.03.
\<close>

theorem calculate_position_spec:
  "(a \<noteq> Buy \<longrightarrow> calculate_position tc c a = 0) \<and>
   calculate_position tc c Buy = py_round (fmul tc (allocation_fraction c)) 2 \<and>
   py_float 0.1 \<le> allocation_fraction c \<and> allocation_fraction c \<le> py_float 0.5 \<and>
   (\<exists>k. calculate_position tc c Buy = py_float (of_int k / 100) \<and>
        \<bar>of_int k / 100 - fmul tc (allocation_fraction c)\<bar> \<le> 1 / 200) \<and>
   (c < 0.5 \<longrightarrow> allocation_fraction c = py_float 0.1 \<and>
      calculate_position tc c Buy = py_round (fmul tc (py_float 0.1)) 2) \<and>
   calculate_position 10000 0.5 Buy = 1000 \<and>
   calculate_position 10000 1 Buy = 5000 \<and>
   calculate_position 100.25 0.5 Buy = py_float 10.03"
proof -
  have other: "a \<noteq> Buy \<longrightarrow> calculate_position tc c a = 0"
    by (simp add: calculate_position_def)
  have cents: "\<exists>k. calculate_position tc c Buy = py_float (of_int k / 100) \<and>
        \<bar>of_int k / 100 - fmul tc (allocation_fraction c)\<bar> \<le> 1 / 200"
    unfolding calculate_position_Buy by (rule py_round_two_decimals)
  have low: "c < 0.5 \<longrightarrow> allocation_fraction c = py_float 0.1 \<and>
      calculate_position tc c Buy = py_round (fmul tc (py_float 0.1)) 2"
  proof
    assume "c < 0.5"
    then have "allocation_fraction c = py_float 0.1" by (rule allocation_fraction_low)
    then show "allocation_fraction c = py_float 0.1 \<and>
        calculate_position tc c Buy = py_round (fmul tc (py_float 0.1)) 2"
      unfolding calculate_position_Buy by simp
  qed
  from other cents low show ?thesis
    using calculate_position_Buy [of tc c] allocation_fraction_range [of c]
      position_10000_half position_10000_one position_rounds_up
    by blast
qed

theorem calculate_position_spec_witness:
  "Sell \<noteq> Buy \<and> calculate_position 10000 0.9 Sell = 0 \<and>
   (0.3::real) < 0.5 \<and> calculate_position 10000 0.3 Buy = 1000 \<and>
   calculate_position 100.25 0.5 Buy = 5646388032815759 / 562949953421312"
proof -
  from calculate_position_spec [of Sell 10000 "0.9"]
  have "calculate_position 10000 0.9 Sell = 0" by simp
  moreover from calculate_position_spec [of Buy 10000 "0.3"]
  have "calculate_position 10000 0.3 Buy = py_round (fmul 10000 (py_float 0.1)) 2" by simp
  then have "calculate_position 10000 0.3 Buy = 1000"
    unfolding py_float_tenth fmul_10000_tenth py_round_1000 .
  moreover from calculate_position_spec [of Buy 10000 "0.3"]
  have "calculate_position 100.25 0.5 Buy = py_float 10.03" by blast
  then have "calculate_position 100.25 0.5 Buy = 5646388032815759 / 562949953421312"
    unfolding py_float_10_03 .
  ultimately show ?thesis by simp
qed

section \<open>The guard of the strategies\<close>

text \<open>
  Claim C3. A strategy given fewer prices than its window plus 5 answers hold with
  confidence 0.5 and the detail "insufficient data": the dual moving average below its long
  window plus 5 (25 in the engine), the RSI strategy below its period plus 5 (19), the
  Bollinger strategy below its window plus 5 (25).
\<close>

theorem short_history_gives_hold:
  "(length ps < long_window + 5 \<longrightarrow>
      MovingAverageStrategy_analyze short_window long_window ps =
        \<lparr>name = NAME_MA, signal = Hold, confidence = 0.5, details = D_INSUFFICIENT\<rparr>) \<and>
   (length ps < period + 5 \<longrightarrow>
      RSIStrategy_analyze fmt_1f period overbought oversold ps =
        \<lparr>name = NAME_RSI, signal = Hold, confidence = 0.5, details = D_INSUFFICIENT\<rparr>) \<and>
   (length ps < window + 5 \<longrightarrow>
      BollingerBandStrategy_analyze window std_dev ps =
        \<lparr>name = NAME_BOLL, signal = Hold, confidence = 0.5, details = D_INSUFFICIENT\<rparr>)"
  by (simp add: MovingAverageStrategy_analyze_def RSIStrategy_analyze_def
      BollingerBandStrategy_analyze_def)

theorem short_history_gives_hold_witness:
  "length [1, 2, 3 :: real] < 20 + 5 \<and> length [1, 2, 3 :: real] < 14 + 5 \<and>
   MovingAverageStrategy_analyze 5 20 [1, 2, 3] =
     \<lparr>name = NAME_MA, signal = Hold, confidence = 0.5, details = D_INSUFFICIENT\<rparr> \<and>
   RSIStrategy_analyze (\<lambda>_. []) 14 70 30 [1, 2, 3] =
     \<lparr>name = NAME_RSI, signal = Hold, confidence = 0.5, details = D_INSUFFICIENT\<rparr> \<and>
   BollingerBandStrategy_analyze 20 2 [1, 2, 3] =
     \<lparr>name = NAME_BOLL, signal = Hold, confidence = 0.5, details = D_INSUFFICIENT\<rparr>"
  using short_history_gives_hold [of "[1, 2, 3]" 20 5 14 "\<lambda>_. []" 70 30 20 2] by simp

section \<open>The confidence values of the engine\<close>

lemma level_bounds: "c \<in> confidence_levels \<Longrightarrow> 0.5 \<le> c \<and> c \<le> 0.85"
  unfolding confidence_levels_def by auto

lemma ma_conf: "Signal.confidence (MovingAverageStrategy_analyze sw lw ps) \<in> confidence_levels"
  by (simp add: MovingAverageStrategy_analyze_def Let_def confidence_levels_def)

lemma rsi_conf: "Signal.confidence (RSIStrategy_analyze fmt p ob os ps) \<in> confidence_levels"
  by (simp add: RSIStrategy_analyze_def Let_def confidence_levels_def)

lemma bb_conf: "Signal.confidence (BollingerBandStrategy_analyze w k ps) \<in> confidence_levels"
  by (simp add: BollingerBandStrategy_analyze_def Let_def confidence_levels_def)

lemma confidence_sum_bounds:
  assumes "\<forall>s\<in>set sigs. lo \<le> Signal.confidence s \<and> Signal.confidence s \<le> hi"
  shows "lo * real (vote_count sigs a) \<le> confidence_sum sigs a \<and>
         confidence_sum sigs a \<le> hi * real (vote_count sigs a)"
  using assms
proof (induction sigs)
  case Nil
  show ?case by (simp add: vote_count_def confidence_sum_def)
next
  case (Cons s sigs)
  then have IH: "lo * real (vote_count sigs a) \<le> confidence_sum sigs a"
      "confidence_sum sigs a \<le> hi * real (vote_count sigs a)"
    and s: "lo \<le> Signal.confidence s" "Signal.confidence s \<le> hi"
    by simp_all
  show ?case
  proof (cases "signal s = a")
    case True
    then have "vote_count (s # sigs) a = Suc (vote_count sigs a)"
        "confidence_sum (s # sigs) a = Signal.confidence s + confidence_sum sigs a"
      by (simp_all add: vote_count_def confidence_sum_def)
    with IH s show ?thesis by (simp add: algebra_simps)
  next
    case False
    then have "vote_count (s # sigs) a = vote_count sigs a"
        "confidence_sum (s # sigs) a = confidence_sum sigs a"
      by (simp_all add: vote_count_def confidence_sum_def)
    with IH show ?thesis by simp
  qed
qed

lemma vote_confidence_bounds:
  assumes "\<forall>s\<in>set sigs. lo \<le> Signal.confidence s \<and> Signal.confidence s \<le> hi"
    and "lo \<le> 0.5" and "0.5 \<le> hi"
  shows "lo \<le> StrategyResult.confidence (vote sigs) \<and> StrategyResult.confidence (vote sigs) \<le> hi"
proof (cases "0 < vote_count sigs (final_action (vote sigs))")
  case True
  let ?n = "real (vote_count sigs (final_action (vote sigs)))"
  from True have pos: "0 < ?n" by simp
  from confidence_sum_bounds [OF assms(1), of "final_action (vote sigs)"]
  have "lo * ?n \<le> confidence_sum sigs (final_action (vote sigs))"
    and "confidence_sum sigs (final_action (vote sigs)) \<le> hi * ?n" by simp_all
  with pos have "lo \<le> confidence_sum sigs (final_action (vote sigs)) / ?n"
    and "confidence_sum sigs (final_action (vote sigs)) / ?n \<le> hi"
    by (simp_all add: field_simps)
  with True show ?thesis by (simp add: vote_confidence)
next
  case False
  with assms(2,3) show ?thesis by (simp add: vote_confidence)
qed

lemma vote_signals: "signals (vote sigs) = sigs"
  by (simp add: vote_def tally_eq Let_def)

text \<open>
  Claim C10. Whatever the prices, the engine returns the three signals of its strategies;
  each has one of the three actions and a confidence among 0.5, 0.55, 0.6, 0.65, 0.7, 0.8
  and 0.85; the final confidence lies between 0.5 and 0.85.
\<close>

theorem engine_confidence_levels:
  "length (signals (StrategyEngine_analyze fmt_1f ps)) = 3 \<and>
   (\<forall>s\<in>set (signals (StrategyEngine_analyze fmt_1f ps)).
      signal s \<in> {Buy, Sell, Hold} \<and>
      Signal.confidence s \<in> {0.5, 0.55, 0.6, 0.65, 0.7, 0.8, 0.85}) \<and>
   0.5 \<le> StrategyResult.confidence (StrategyEngine_analyze fmt_1f ps) \<and>
   StrategyResult.confidence (StrategyEngine_analyze fmt_1f ps) \<le> 0.85"
proof -
  let ?sigs = "[MovingAverageStrategy_analyze 5 20 ps, RSIStrategy_analyze fmt_1f 14 70 30 ps,
                BollingerBandStrategy_analyze 20 2 ps]"
  have act: "signal s \<in> {Buy, Sell, Hold}" for s :: Signal
    by (cases "signal s") simp_all
  have lev: "\<forall>s\<in>set ?sigs. Signal.confidence s \<in> confidence_levels"
    by (simp add: ma_conf rsi_conf bb_conf)
  then have "\<forall>s\<in>set ?sigs. 0.5 \<le> Signal.confidence s \<and> Signal.confidence s \<le> 0.85"
    using level_bounds by blast
  then have "0.5 \<le> StrategyResult.confidence (vote ?sigs) \<and>
             StrategyResult.confidence (vote ?sigs) \<le> 0.85"
    by (rule vote_confidence_bounds) simp_all
  moreover have "signals (StrategyEngine_analyze fmt_1f ps) = ?sigs"
    unfolding StrategyEngine_analyze_def by (rule vote_signals)
  ultimately show ?thesis
    using lev act unfolding StrategyEngine_analyze_def confidence_levels_def by simp
qed

theorem engine_confidence_levels_witness:
  "set (signals (StrategyEngine_analyze (\<lambda>_. []) [1, 2, 3])) \<noteq> {} \<and>
   0.5 \<le> StrategyResult.confidence (StrategyEngine_analyze (\<lambda>_. []) [1, 2, 3]) \<and>
   StrategyResult.confidence (StrategyEngine_analyze (\<lambda>_. []) [1, 2, 3]) \<le> 0.85"
  using engine_confidence_levels [of "\<lambda>_. []" "[1, 2, 3]"] by auto

section \<open>The indicators\<close>

lemma length_diff [simp]: "length (diff xs) = length xs"
  by (simp add: diff_def)

lemma length_series_where [simp]: "length (series_where c v xs) = length xs"
  by (simp add: series_where_def)

lemma length_fillna [simp]: "length (fillna v xs) = length xs"
  by (simp add: fillna_def)

lemma length_rolling_mean [simp]: "length (rolling_mean w xs) = length xs"
  by (simp add: rolling_mean_def)

lemma length_rolling_std [simp]: "length (rolling_std w xs) = length xs"
  by (simp add: rolling_std_def)

lemma those_fin: "those (map fin_of (map Fin ys)) = Some ys"
  by (induction ys) simp_all

lemma window_at_fin:
  "window_at w i (map Fin xs) =
     (if w = 0 \<or> i + 1 < w then None else Some (trailing_window w xs i))"
proof -
  have "take w (drop k (map Fin xs)) = map Fin (take w (drop k xs))" for k
    by (simp add: take_map drop_map)
  then show ?thesis
    unfolding window_at_def trailing_window_def by (simp only: those_fin)
qed

lemma rolling_mean_fin:
  "i < length xs \<Longrightarrow>
   rolling_mean w (map Fin xs) ! i =
     (if w = 0 \<or> i + 1 < w then NaN else Fin (trailing_mean w xs i))"
  by (simp add: rolling_mean_def window_at_fin trailing_mean_def)

lemma rolling_std_fin:
  "i < length xs \<Longrightarrow>
   rolling_std w (map Fin xs) ! i =
     (if w < 2 \<or> i + 1 < w then NaN else Fin (trailing_std w xs i))"
  by (auto simp: rolling_std_def window_at_fin trailing_std_def trailing_mean_def Let_def)

lemma gains_series:
  "series_where (\<lambda>d. fl_gt d (Fin 0)) (Fin 0) (diff (map Fin ps)) = map Fin (price_gains ps)"
  by (auto simp: series_where_def diff_def price_gains_def fl_gt_def fl_sub_def max_def)

lemma losses_series_neg:
  "map fl_neg (series_where (\<lambda>d. fl_lt d (Fin 0)) (Fin 0) (diff (map Fin ps))) =
     map Fin (price_losses ps)"
  by (auto simp: series_where_def diff_def price_losses_def fl_sub_def max_def)

lemma length_price_gains [simp]: "length (price_gains ps) = length ps"
  by (simp add: price_gains_def)

lemma length_price_losses [simp]: "length (price_losses ps) = length ps"
  by (simp add: price_losses_def)

lemma price_gains_nonneg: "x \<in> set (price_gains ps) \<Longrightarrow> 0 \<le> x"
  by (auto simp: price_gains_def)

lemma price_losses_nonneg: "x \<in> set (price_losses ps) \<Longrightarrow> 0 \<le> x"
  by (auto simp: price_losses_def)

lemma trailing_mean_nonneg:
  assumes "\<And>x. x \<in> set xs \<Longrightarrow> 0 \<le> x"
  shows "0 \<le> trailing_mean w xs i"
proof -
  have "set (trailing_window w xs i) \<subseteq> set xs"
    unfolding trailing_window_def
    by (meson set_take_subset set_drop_subset subset_trans)
  with assms have "0 \<le> sum_list (trailing_window w xs i)"
    by (intro sum_list_nonneg) auto
  then show ?thesis by (simp add: trailing_mean_def)
qed

lemma rsi_point:
  assumes "0 \<le> a" and "0 \<le> b"
  shows "fl_sub (Fin 100) (fl_div (Fin 100) (fl_add (Fin 1) (fl_div (Fin a) (Fin b)))) =
     (if b = 0 then (if a = 0 then NaN else Fin 100) else Fin (100 - 100 / (1 + a / b)))"
proof (cases "b = 0")
  case True
  with assms show ?thesis by (cases "a = 0") (simp_all add: fl_sub_def)
next
  case False
  with assms have "0 \<le> a / b" by simp
  then have "1 + a / b \<noteq> 0" by linarith
  with False show ?thesis by (simp add: fl_sub_def)
qed

lemma quotient_range:
  assumes "0 \<le> (q::real)"
  shows "0 \<le> 100 - 100 / (1 + q) \<and> 100 - 100 / (1 + q) \<le> 100"
proof -
  from assms have pos: "0 < 1 + q" by linarith
  from assms have "100 \<le> 100 * (1 + q)" by simp
  with pos have "100 / (1 + q) \<le> 100" by (simp add: pos_divide_le_eq)
  moreover from pos have "0 \<le> 100 / (1 + q)" by simp
  ultimately show ?thesis by simp
qed

lemma rsi_range:
  assumes "0 \<le> a" and "0 < b"
  shows "0 \<le> 100 - 100 / (1 + a / b) \<and> 100 - 100 / (1 + a / b) \<le> (100::real)"
proof -
  from assms have "0 \<le> a / b" by simp
  then show ?thesis by (rule quotient_range)
qed

lemma fillna_nth: "i < length xs \<Longrightarrow> fillna v xs ! i = (if xs ! i = NaN then Fin v else xs ! i)"
  by (simp add: fillna_def)

lemma calculate_rsi_short:
  "length ps < period + 1 \<Longrightarrow> calculate_rsi ps period = replicate (length ps) (Fin 0)"
  by (simp add: calculate_rsi_def)

lemma calculate_rsi_length: "length (calculate_rsi ps period) = length ps"
  by (simp add: calculate_rsi_def Let_def)

lemma calculate_rsi_nth:
  assumes "period + 1 \<le> length ps" and "i < length ps"
  shows "calculate_rsi ps period ! i =
     (if period = 0 \<or> i + 1 < period then Fin 50
      else if trailing_mean period (price_losses ps) i = 0
           then (if trailing_mean period (price_gains ps) i = 0 then Fin 50 else Fin 100)
           else Fin (100 - 100 / (1 + trailing_mean period (price_gains ps) i
                                      / trailing_mean period (price_losses ps) i)))"
proof -
  let ?g = "rolling_mean period (map Fin (price_gains ps))"
  let ?l = "rolling_mean period (map Fin (price_losses ps))"
  let ?f = "\<lambda>r. fl_sub (Fin 100) (fl_div (Fin 100) (fl_add (Fin 1) r))"
  define rsi where "rsi = map ?f (map2 fl_div ?g ?l)"
  have unfold: "calculate_rsi ps period = fillna 50 rsi"
    using assms(1) by (simp add: rsi_def calculate_rsi_def Let_def gains_series losses_series_neg)
  have len: "i < length rsi"
    using assms(2) by (simp add: rsi_def)
  have point: "rsi ! i = ?f (fl_div (?g ! i) (?l ! i))"
    using assms(2) by (simp add: rsi_def)
  have g: "?g ! i = (if period = 0 \<or> i + 1 < period then NaN
                     else Fin (trailing_mean period (price_gains ps) i))"
    using assms(2) by (simp add: rolling_mean_fin)
  have l: "?l ! i = (if period = 0 \<or> i + 1 < period then NaN
                     else Fin (trailing_mean period (price_losses ps) i))"
    using assms(2) by (simp add: rolling_mean_fin)
  have ga: "0 \<le> trailing_mean period (price_gains ps) i"
    by (rule trailing_mean_nonneg) (rule price_gains_nonneg)
  have lo: "0 \<le> trailing_mean period (price_losses ps) i"
    by (rule trailing_mean_nonneg) (rule price_losses_nonneg)
  show ?thesis
  proof (cases "period = 0 \<or> i + 1 < period")
    case True
    then have "?f (fl_div (?g ! i) (?l ! i)) = NaN"
      unfolding g l by (simp add: fl_sub_def)
    with True show ?thesis
      unfolding unfold by (simp add: fillna_nth [OF len] point)
  next
    case False
    then have "?f (fl_div (?g ! i) (?l ! i)) =
        (if trailing_mean period (price_losses ps) i = 0
         then (if trailing_mean period (price_gains ps) i = 0 then NaN else Fin 100)
         else Fin (100 - 100 / (1 + trailing_mean period (price_gains ps) i
                                    / trailing_mean period (price_losses ps) i)))"
      unfolding g l using rsi_point [OF ga lo] by simp
    with False show ?thesis
      unfolding unfold by (simp add: fillna_nth [OF len] point)
  qed
qed

lemma calculate_rsi_finite:
  assumes "x \<in> set (calculate_rsi ps period)"
  shows "\<exists>v. x = Fin v \<and> 0 \<le> v \<and> v \<le> 100"
proof (cases "length ps < period + 1")
  case True
  with assms show ?thesis by (auto simp: calculate_rsi_short)
next
  case False
  from assms obtain i where i: "i < length ps" "x = calculate_rsi ps period ! i"
    by (auto simp: in_set_conv_nth calculate_rsi_length)
  have ga: "0 \<le> trailing_mean period (price_gains ps) i"
    by (rule trailing_mean_nonneg) (rule price_gains_nonneg)
  have lo: "0 \<le> trailing_mean period (price_losses ps) i"
    by (rule trailing_mean_nonneg) (rule price_losses_nonneg)
  have rng: "trailing_mean period (price_losses ps) i \<noteq> 0 \<Longrightarrow>
      0 \<le> 100 - 100 / (1 + trailing_mean period (price_gains ps) i
                            / trailing_mean period (price_losses ps) i) \<and>
      100 - 100 / (1 + trailing_mean period (price_gains ps) i
                       / trailing_mean period (price_losses ps) i) \<le> 100"
    using rsi_range [OF ga] lo by simp
  from False have "period + 1 \<le> length ps" by simp
  from calculate_rsi_nth [OF this i(1)] rng show ?thesis
    unfolding i(2) by (auto split: if_splits)
qed

lemmas evaluate_series = diff_def series_where_def rolling_mean_def rolling_std_def window_at_def
  fl_sub_def fl_gt_def fl_ge_def fl_le_def fl_ne_def fillna_def Let_def eval_nat_numeral

text \<open>
  Claim C4, as the code has it. The RSI list has the length of the price list, and every
  element is a finite number between 0 and 100, so none is missing. For fewer than
  \<open>period + 1\<close> prices every element is 0.0. Otherwise the element is 50.0 at every row
  whose rolling window is not full, the rows before row \<open>period - 1\<close>.
\<close>

theorem calculate_rsi_shape:
  "length (calculate_rsi ps period) = length ps \<and>
   (\<forall>x\<in>set (calculate_rsi ps period). \<exists>v. x = Fin v \<and> 0 \<le> v \<and> v \<le> 100) \<and>
   (length ps < period + 1 \<longrightarrow> (\<forall>i<length ps. calculate_rsi ps period ! i = Fin 0)) \<and>
   (period + 1 \<le> length ps \<longrightarrow> (\<forall>i. i + 1 < period \<longrightarrow> calculate_rsi ps period ! i = Fin 50))"
proof -
  have "calculate_rsi ps period ! i = Fin 50" if "period + 1 \<le> length ps" "i + 1 < period" for i
  proof -
    from that have "i < length ps" by simp
    from calculate_rsi_nth [OF that(1) this] that(2) show ?thesis by simp
  qed
  moreover have "calculate_rsi ps period ! i = Fin 0" if "length ps < period + 1" "i < length ps" for i
    using that by (simp add: calculate_rsi_short)
  ultimately show ?thesis
    using calculate_rsi_length [of ps period] calculate_rsi_finite [of _ ps period] by blast
qed

theorem calculate_rsi_shape_witness:
  "length (calculate_rsi [1, 2, 3] 2) = 3 \<and> 2 + 1 \<le> length [1, 2, 3 :: real] \<and>
   (0::nat) + 1 < 2 \<and> calculate_rsi [1, 2, 3] 2 ! 0 = Fin 50 \<and>
   length [1 :: real] < 14 + 1 \<and> calculate_rsi [1] 14 ! 0 = Fin 0"
  using calculate_rsi_shape [of "[1, 2, 3]" 2] calculate_rsi_shape [of "[1]" 14] by simp

text \<open>For a single price and the period 14 the value at row 0 is 0.0, not 50.0.\<close>

theorem calculate_rsi_short_list_counterexample: "length [1 :: real] < 14 + 1 \<and> calculate_rsi [1] 14 ! 0 \<noteq> Fin 50"
  by (simp add: calculate_rsi_def)

text \<open>
  Claim C5, as the code has it. No element of the RSI list is missing or infinite. For a
  list of at least \<open>period + 1\<close> prices, at a row with a full window whose average loss is
  0, the value is 50.0 when the average gain is 0 as well, and 100.0 when the average gain
  is positive. For a shorter list the guard answers 0.0 at every row, whatever the losses.
\<close>

theorem calculate_rsi_zero_loss:
  "(\<forall>x\<in>set (calculate_rsi ps period). x \<noteq> NaN \<and> x \<noteq> PInf \<and> x \<noteq> NInf) \<and>
   (period + 1 \<le> length ps \<and> 0 < period \<and> period \<le> i + 1 \<and> i < length ps \<and>
    trailing_mean period (price_losses ps) i = 0 \<longrightarrow>
      calculate_rsi ps period ! i =
        (if trailing_mean period (price_gains ps) i = 0 then Fin 50 else Fin 100)) \<and>
   (length ps < period + 1 \<and> i < length ps \<longrightarrow> calculate_rsi ps period ! i = Fin 0)"
proof -
  have "x \<noteq> NaN \<and> x \<noteq> PInf \<and> x \<noteq> NInf" if "x \<in> set (calculate_rsi ps period)" for x
    using calculate_rsi_finite [OF that] by auto
  moreover have "calculate_rsi ps period ! i =
        (if trailing_mean period (price_gains ps) i = 0 then Fin 50 else Fin 100)"
    if "period + 1 \<le> length ps" "0 < period" "period \<le> i + 1" "i < length ps"
       "trailing_mean period (price_losses ps) i = 0"
    using calculate_rsi_nth [OF that(1) that(4)] that(2,3,5) by simp
  moreover have "calculate_rsi ps period ! i = Fin 0"
    if "length ps < period + 1" "i < length ps"
    using that by (simp add: calculate_rsi_short)
  ultimately show ?thesis by blast
qed

theorem calculate_rsi_zero_loss_witness:
  "14 + 1 \<le> length rising15 \<and> (0::nat) < 14 \<and> (14::nat) \<le> 14 + 1 \<and> 14 < length rising15 \<and>
   trailing_mean 14 (price_losses rising15) 14 = 0 \<and>
   trailing_mean 14 (price_gains rising15) 14 = 1 \<and>
   calculate_rsi rising15 14 ! 14 = Fin 100 \<and>
   length rising14 < 14 + 1 \<and> 13 < length rising14 \<and>
   trailing_mean 14 (price_losses rising14) 13 = 0 \<and>
   calculate_rsi rising14 14 ! 13 = Fin 0"
proof -
  have "trailing_mean 14 (price_losses rising15) 14 = 0"
    and "trailing_mean 14 (price_gains rising15) 14 = 1"
    and "trailing_mean 14 (price_losses rising14) 13 = 0"
    by (simp_all add: rising15_def rising14_def trailing_mean_def trailing_window_def
        price_losses_def price_gains_def eval_nat_numeral)
  with calculate_rsi_zero_loss [of rising15 14 14] calculate_rsi_zero_loss [of rising14 14 13]
  show ?thesis
    by (simp add: rising15_def rising14_def)
qed

text \<open>
  For fifteen rising prices and the period 14, the average loss at the last row is 0 and
  the value there is 100.0, not 50.0.
\<close>

theorem calculate_rsi_zero_loss_counterexample:
  "trailing_mean 14 (price_losses rising15) 14 = 0 \<and>
   calculate_rsi rising15 14 ! 14 = Fin 100 \<and> Fin 100 \<noteq> Fin 50"
  by (simp add: rising15_def calculate_rsi_def trailing_mean_def trailing_window_def
      price_losses_def evaluate_series)

text \<open>
  The RSI strategy computes the same index and fills nothing in. On a flat window the
  index is missing, every comparison with it is false, and the last branch answers.
\<close>

lemma rsi_strategy_flat_prices:
  "RSIStrategy_analyze fmt_1f 2 70 30 [1, 1, 1, 1, 1, 1, 1] =
     \<lparr>name = NAME_RSI, signal = Hold, confidence = 0.55,
      details = D_RSI_EQ @ fmt_1f NaN @ D_RSI_WEAK\<rparr>"
  by (simp add: RSIStrategy_analyze_def evaluate_series)

lemma bb_short:
  "length ps < window \<Longrightarrow>
   calculate_bollinger_bands ps window k = \<lparr>upper = [], middle = [], lower = []\<rparr>"
  by (simp add: calculate_bollinger_bands_def)

lemma bb_lengths:
  "window \<le> length ps \<Longrightarrow>
   length (upper (calculate_bollinger_bands ps window k)) = length ps \<and>
   length (middle (calculate_bollinger_bands ps window k)) = length ps \<and>
   length (lower (calculate_bollinger_bands ps window k)) = length ps"
  by (simp add: calculate_bollinger_bands_def Let_def)

lemma bb_nth:
  assumes "window \<le> length ps" and "2 \<le> window" and "i < length ps"
  shows "middle (calculate_bollinger_bands ps window k) ! i =
           (if i + 1 < window then Fin 0 else Fin (trailing_mean window ps i))"
    and "upper (calculate_bollinger_bands ps window k) ! i =
           (if i + 1 < window then Fin 0
            else Fin (trailing_mean window ps i + k * trailing_std window ps i))"
    and "lower (calculate_bollinger_bands ps window k) ! i =
           (if i + 1 < window then Fin 0
            else Fin (trailing_mean window ps i - k * trailing_std window ps i))"
proof -
  define m where "m = rolling_mean window (map Fin ps)"
  define sd where "sd = map (fl_mul (Fin k)) (rolling_std window (map Fin ps))"
  define up where "up = map2 fl_add m sd"
  define lo where "lo = map2 fl_sub m sd"
  have bands: "calculate_bollinger_bands ps window k =
      \<lparr>upper = fillna 0 up, middle = fillna 0 m, lower = fillna 0 lo\<rparr>"
    using assms(1) by (simp add: calculate_bollinger_bands_def Let_def m_def sd_def up_def lo_def)
  have lens: "i < length m" "i < length sd" "i < length up" "i < length lo"
    using assms(3) by (simp_all add: m_def sd_def up_def lo_def)
  have m: "m ! i = (if i + 1 < window then NaN else Fin (trailing_mean window ps i))"
    using assms(2,3) by (simp add: m_def rolling_mean_fin)
  have sd: "sd ! i = (if i + 1 < window then NaN else Fin (k * trailing_std window ps i))"
    using assms(2,3) by (simp add: sd_def rolling_std_fin)
  have up: "up ! i = fl_add (m ! i) (sd ! i)"
    using lens by (simp add: up_def)
  have lo: "lo ! i = fl_sub (m ! i) (sd ! i)"
    using lens by (simp add: lo_def)
  show "middle (calculate_bollinger_bands ps window k) ! i =
           (if i + 1 < window then Fin 0 else Fin (trailing_mean window ps i))"
    unfolding bands by (simp add: fillna_nth [OF lens(1)] m)
  show "upper (calculate_bollinger_bands ps window k) ! i =
           (if i + 1 < window then Fin 0
            else Fin (trailing_mean window ps i + k * trailing_std window ps i))"
    unfolding bands by (simp add: fillna_nth [OF lens(3)] up m sd)
  show "lower (calculate_bollinger_bands ps window k) ! i =
           (if i + 1 < window then Fin 0
            else Fin (trailing_mean window ps i - k * trailing_std window ps i))"
    unfolding bands by (simp add: fillna_nth [OF lens(4)] lo m sd fl_sub_def)
qed

text \<open>
  Claim C6, as the code has it. For fewer prices than the window the three bands are
  empty. Otherwise each band has the length of the price list and, for a window of at
  least 2, a row with fewer than \<open>window\<close> observations is 0 in the three bands, and every
  other row holds the trailing mean in the middle band and the trailing mean plus and minus
  the multiplier times the trailing standard deviation in the upper and the lower band.
\<close>

theorem calculate_bollinger_bands_shape: 
  "(length ps < window \<longrightarrow>
      calculate_bollinger_bands ps window k = \<lparr>upper = [], middle = [], lower = []\<rparr>) \<and>
   (window \<le> length ps \<longrightarrow>
      length (upper (calculate_bollinger_bands ps window k)) = length ps \<and>
      length (middle (calculate_bollinger_bands ps window k)) = length ps \<and>
      length (lower (calculate_bollinger_bands ps window k)) = length ps \<and>
      (2 \<le> window \<longrightarrow>
         (\<forall>i<length ps.
            middle (calculate_bollinger_bands ps window k) ! i =
              (if i + 1 < window then Fin 0 else Fin (trailing_mean window ps i)) \<and>
            upper (calculate_bollinger_bands ps window k) ! i =
              (if i + 1 < window then Fin 0
               else Fin (trailing_mean window ps i + k * trailing_std window ps i)) \<and>
            lower (calculate_bollinger_bands ps window k) ! i =
              (if i + 1 < window then Fin 0
               else Fin (trailing_mean window ps i - k * trailing_std window ps i)))))"
  using bb_short [of ps window k] bb_lengths [of window ps k] bb_nth [of window ps _ k]
  by blast

theorem calculate_bollinger_bands_shape_witness:
  "(2::nat) \<le> length [1, 3, 1 :: real] \<and>
   length (upper (calculate_bollinger_bands [1, 3, 1] 2 2)) = 3 \<and>
   upper (calculate_bollinger_bands [1, 3, 1] 2 2) ! 0 = Fin 0 \<and>
   middle (calculate_bollinger_bands [1, 3, 1] 2 2) ! 2 = Fin 2 \<and>
   upper (calculate_bollinger_bands [1, 3, 1] 2 2) ! 2 = Fin (2 + 2 * sqrt 2) \<and>
   length [1 :: real] < 20 \<and>
   calculate_bollinger_bands [1] 20 2 = \<lparr>upper = [], middle = [], lower = []\<rparr>"
  using calculate_bollinger_bands_shape [of "[1, 3, 1]" 2 2] calculate_bollinger_bands_shape [of "[1]" 20 2]
  by (simp add: trailing_mean_def trailing_std_def trailing_window_def eval_nat_numeral)

text \<open>For a single price and the window 20 the upper band is empty, and the price list is not.\<close>

theorem calculate_bollinger_bands_short_list_counterexample:
  "length (upper (calculate_bollinger_bands [1] 20 2)) \<noteq> length [1 :: real]"
  by (simp add: calculate_bollinger_bands_def)

section \<open>The synthetic history\<close>






subsection \<open>Two runs of a small generator\<close>































section \<open>The advice service\<close>

lemma rule_based_advice_nonempty: "rule_based_advice sr \<noteq> []"
  by (cases "final_action sr") (simp_all add: rule_based_advice_def Let_def A_BUY_def A_SELL_def A_HOLD_def)

lemma rule_based_advice_depends:
  "final_action sr = final_action sr' \<Longrightarrow>
   StrategyResult.confidence sr = StrategyResult.confidence sr' \<Longrightarrow>
   rule_based_advice sr = rule_based_advice sr'"
  by (simp add: rule_based_advice_def)

lemma generate_advice_hit:
  assumes "get_cached_response table (md5_hex (build_prompt fmt sr)) now_lookup = Some r" and "r \<noteq> []"
  shows "generate_advice fmt md5_hex provider table now_lookup now_save sr =
     \<lparr>advice = r, table_after = table, provider_calls = []\<rparr>"
  using assms by (simp add: generate_advice_def Let_def)

lemma generate_advice_answer:
  assumes "get_cached_response table (md5_hex (build_prompt fmt sr)) now_lookup = None \<or>
           get_cached_response table (md5_hex (build_prompt fmt sr)) now_lookup = Some []"
    and "provider (build_prompt fmt sr) = Some a" and "a \<noteq> []"
  shows "generate_advice fmt md5_hex provider table now_lookup now_save sr =
     \<lparr>advice = a,
      table_after = save_to_cache table (md5_hex (build_prompt fmt sr)) (build_prompt fmt sr) a now_save,
      provider_calls = [build_prompt fmt sr]\<rparr>"
  using assms by (auto simp: generate_advice_def Let_def)

lemma generate_advice_fallback:
  assumes "get_cached_response table (md5_hex (build_prompt fmt sr)) now_lookup = None \<or>
           get_cached_response table (md5_hex (build_prompt fmt sr)) now_lookup = Some []"
    and "provider (build_prompt fmt sr) = None \<or> provider (build_prompt fmt sr) = Some []"
  shows "generate_advice fmt md5_hex provider table now_lookup now_save sr =
     \<lparr>advice = rule_based_advice sr, table_after = table,
      provider_calls = [build_prompt fmt sr]\<rparr>"
  using assms by (auto simp: generate_advice_def Let_def)

lemma generate_advice_nonempty:
  "advice (generate_advice fmt md5_hex provider table now_lookup now_save sr) \<noteq> []"
proof -
  let ?c = "get_cached_response table (md5_hex (build_prompt fmt sr)) now_lookup"
  let ?a = "provider (build_prompt fmt sr)"
  consider r where "?c = Some r" "r \<noteq> []"
    | a where "?c = None \<or> ?c = Some []" "?a = Some a" "a \<noteq> []"
    | "?c = None \<or> ?c = Some []" "?a = None \<or> ?a = Some []"
    by (cases ?c; cases ?a) auto
  then show ?thesis
  proof cases
    case 1
    then show ?thesis by (simp add: generate_advice_hit)
  next
    case 2
    then show ?thesis by (simp add: generate_advice_answer)
  next
    case 3
    then show ?thesis by (simp add: generate_advice_fallback rule_based_advice_nonempty)
  qed
qed

lemma get_cached_response_find:
  "find (\<lambda>c. signal_key c = k) table = Some e \<Longrightarrow>
   get_cached_response table k now = (if now < expires_at e then Some (response e) else None)"
  by (simp add: get_cached_response_def)

lemma get_cached_response_absent:
  "find (\<lambda>c. signal_key c = k) table = None \<Longrightarrow> get_cached_response table k now = None"
  by (simp add: get_cached_response_def)

text \<open>
  Claim C8. The advice is never the empty text. When the cache has no usable response and
  the provider gives no text, the advice is the rule-based one, the table is left as it
  was, and the provider has been asked exactly once, before the fallback. The rule-based
  advice depends on the final action and the confidence only.
\<close>

theorem generate_advice_always_answers:
  "advice (generate_advice fmt md5_hex provider table now_lookup now_save sr) \<noteq> [] \<and>
   ((get_cached_response table (md5_hex (build_prompt fmt sr)) now_lookup = None \<or>
     get_cached_response table (md5_hex (build_prompt fmt sr)) now_lookup = Some []) \<and>
    (provider (build_prompt fmt sr) = None \<or> provider (build_prompt fmt sr) = Some []) \<longrightarrow>
      advice (generate_advice fmt md5_hex provider table now_lookup now_save sr) = rule_based_advice sr \<and>
      table_after (generate_advice fmt md5_hex provider table now_lookup now_save sr) = table \<and>
      provider_calls (generate_advice fmt md5_hex provider table now_lookup now_save sr) = [build_prompt fmt sr]) \<and>
   (final_action sr = final_action sr' \<and>
    StrategyResult.confidence sr = StrategyResult.confidence sr' \<longrightarrow>
      rule_based_advice sr = rule_based_advice sr')"
  using generate_advice_nonempty [of fmt md5_hex provider table now_lookup now_save sr]
    generate_advice_fallback [of table md5_hex fmt sr now_lookup provider now_save]
    rule_based_advice_depends [of sr sr']
  by simp

theorem generate_advice_always_answers_witness:
  "get_cached_response [] (build_prompt no_format buy_result) 5 = None \<and>
   advice (generate_advice no_format (\<lambda>p. p) (\<lambda>_. None) [] 5 6 buy_result) =
     A_BUY @ A_STRONG @ A_RISK_BUY \<and>
   table_after (generate_advice no_format (\<lambda>p. p) (\<lambda>_. None) [] 5 6 buy_result) = []"
proof -
  have "get_cached_response [] (build_prompt no_format buy_result) 5 = None"
    by (simp add: get_cached_response_def)
  moreover have "rule_based_advice buy_result = A_BUY @ A_STRONG @ A_RISK_BUY"
    by (simp add: rule_based_advice_def buy_result_def)
  ultimately show ?thesis
    using generate_advice_always_answers
      [of no_format "\<lambda>p. p" "\<lambda>_. None" "[]" 5 6 buy_result buy_result]
    by simp
qed

text \<open>
  Claim C7, as the code has it. When the table has a row for the key of the prompt, with a
  response that is not empty, the provider is left alone exactly when the time of the
  lookup is strictly before the row's expiry, and then the stored response is returned and
  the table is unchanged. When the table has no row for the key and the provider answers
  with a text, the text is returned and one row is added, which expires 24 hours after the
  time of the insert.
\<close>

theorem advice_cache_hit_and_store:
  "(find (\<lambda>c. signal_key c = md5_hex (build_prompt fmt sr)) table = Some e \<and> response e \<noteq> [] \<longrightarrow>
      (provider_calls (generate_advice fmt md5_hex provider table now_lookup now_save sr) = [] \<longleftrightarrow>
         now_lookup < expires_at e) \<and>
      (now_lookup < expires_at e \<longrightarrow>
         advice (generate_advice fmt md5_hex provider table now_lookup now_save sr) = response e \<and>
         table_after (generate_advice fmt md5_hex provider table now_lookup now_save sr) = table)) \<and>
   (find (\<lambda>c. signal_key c = md5_hex (build_prompt fmt sr)) table = None \<and>
    provider (build_prompt fmt sr) = Some a \<and> a \<noteq> [] \<longrightarrow>
      advice (generate_advice fmt md5_hex provider table now_lookup now_save sr) = a \<and>
      table_after (generate_advice fmt md5_hex provider table now_lookup now_save sr) =
        table @ [\<lparr>signal_key = md5_hex (build_prompt fmt sr), prompt = build_prompt fmt sr,
                   response = a, expires_at = now_save + hours_us 24\<rparr>])"
proof -
  let ?k = "md5_hex (build_prompt fmt sr)"
  let ?r = "generate_advice fmt md5_hex provider table now_lookup now_save sr"
  have hit: "provider_calls ?r = [] \<and> advice ?r = response e \<and> table_after ?r = table"
    if "find (\<lambda>c. signal_key c = ?k) table = Some e" "response e \<noteq> []" "now_lookup < expires_at e"
    using that by (simp add: generate_advice_hit get_cached_response_find)
  have miss: "provider_calls ?r \<noteq> []"
    if "find (\<lambda>c. signal_key c = ?k) table = Some e" "\<not> now_lookup < expires_at e"
    using that by (simp add: generate_advice_def Let_def get_cached_response_find)
  have new: "advice ?r = a \<and> table_after ?r =
        table @ [\<lparr>signal_key = ?k, prompt = build_prompt fmt sr,
                   response = a, expires_at = now_save + hours_us 24\<rparr>]"
    if "find (\<lambda>c. signal_key c = ?k) table = None" "provider (build_prompt fmt sr) = Some a"
       "a \<noteq> []"
    using that by (simp add: generate_advice_answer get_cached_response_absent save_to_cache_def)
  from hit miss new show ?thesis by blast
qed

theorem advice_cache_hit_and_store_witness:
  "find (\<lambda>c. signal_key c = build_prompt no_format buy_result) [cached_row] = Some cached_row \<and>
   response cached_row \<noteq> [] \<and> 999 < expires_at cached_row \<and>
   generate_advice no_format (\<lambda>p. p) (\<lambda>_. Some [0x59]) [cached_row] 999 999 buy_result =
     \<lparr>advice = [0x4F, 0x4B], table_after = [cached_row], provider_calls = []\<rparr> \<and>
   find (\<lambda>c. signal_key c = build_prompt no_format buy_result) [] = None \<and>
   table_after (generate_advice no_format (\<lambda>p. p) (\<lambda>_. Some [0x59]) [] 999 2000 buy_result) =
     [\<lparr>signal_key = build_prompt no_format buy_result,
       prompt = build_prompt no_format buy_result, response = [0x59],
       expires_at = 86400002000\<rparr>]"
proof -
  have row: "find (\<lambda>c. signal_key c = build_prompt no_format buy_result) [cached_row] =
      Some cached_row"
    by (simp add: cached_row_def)
  have resp: "response cached_row = [0x4F, 0x4B]" and exp: "expires_at cached_row = 1000"
    by (simp_all add: cached_row_def)
  from advice_cache_hit_and_store
    [where md5_hex = "\<lambda>p. p" and fmt = no_format and sr = buy_result and table = "[cached_row]"
       and e = cached_row and provider = "\<lambda>_. Some [0x59]" and now_lookup = 999 and now_save = 999]
    row resp exp
  have hit: "generate_advice no_format (\<lambda>p. p) (\<lambda>_. Some [0x59]) [cached_row] 999 999 buy_result =
      \<lparr>advice = [0x4F, 0x4B], table_after = [cached_row], provider_calls = []\<rparr>"
    by simp
  from advice_cache_hit_and_store
    [where md5_hex = "\<lambda>p. p" and fmt = no_format and sr = buy_result and table = "[]"
       and provider = "\<lambda>_. Some [0x59]" and a = "[0x59]" and now_lookup = 999 and now_save = 2000]
  have "table_after (generate_advice no_format (\<lambda>p. p) (\<lambda>_. Some [0x59]) [] 999 2000 buy_result) =
      [\<lparr>signal_key = build_prompt no_format buy_result,
        prompt = build_prompt no_format buy_result, response = [0x59],
        expires_at = 86400002000\<rparr>]"
    by (simp add: hours_us_def)
  with hit row resp exp show ?thesis by simp
qed

text \<open>
  At the very time of the expiry the claim as written expects the stored response and no
  call; the provider is called and its answer returned.
\<close>

theorem advice_cache_boundary_counterexample:
  "find (\<lambda>c. signal_key c = build_prompt no_format buy_result) [cached_row] = Some cached_row \<and>
   (1000::int) \<le> expires_at cached_row \<and>
   generate_advice no_format (\<lambda>p. p) (\<lambda>_. Some [0x59]) [cached_row] 1000 1000 buy_result =
     \<lparr>advice = [0x59], table_after = [cached_row],
      provider_calls = [build_prompt no_format buy_result]\<rparr>"
  by (simp add: generate_advice_def Let_def get_cached_response_def save_to_cache_def
      cached_row_def)

text \<open>
  A row that has expired is never replaced: the lookup misses, and the insert of the same
  key fails on the unique column, whatever the provider answers.
\<close>

lemma expired_row_is_kept:
  assumes "find (\<lambda>c. signal_key c = md5_hex (build_prompt fmt sr)) table = Some e"
    and "\<not> now_lookup < expires_at e"
  shows "table_after (generate_advice fmt md5_hex provider table now_lookup now_save sr) = table"
  using assms
  by (simp add: generate_advice_def Let_def get_cached_response_def save_to_cache_def)

end
